theory Spec2Isabelle
  imports Complex_Main "HOL-Library.Sublist" "HOL-Library.AList"
begin

section \<open>Python values\<close>

text \<open>
  A Python \<open>str\<close> is a sequence of Unicode code points, so \<open>len\<close>, slicing and the
  substring test \<open>needle in hay\<close> all work on code points. A \<open>str\<close> is a list of
  code points here; \<open>str\<close> embeds an ASCII literal, and the Devanagari keywords of the
  tables are written as their code points. The substring test is \<open>sublist\<close>.

  A Python \<open>float\<close> is a rational number here. In the intent detector and the chat
  pipeline it is the number it would be without rounding: the arithmetic is exact,
  comparisons are those of the rationals. The FAQ search, whose ranking depends on the
  rounding, computes in binary64 (section \<open>Floating point\<close>).
\<close>

type_synonym pystr = "nat list"

definition str :: "string \<Rightarrow> pystr" where
  "str s = map of_char s"

text \<open>
  \<open>str.lower\<close> is a built-in of Python that follows the Unicode case tables. The
  functions that call it take it as the parameter \<open>lower\<close>; \<open>ascii_lower\<close> is what it
  does on text whose cased letters are all ASCII, and is the instance used to run the
  model on concrete inputs.
\<close>

definition ascii_lower :: "pystr \<Rightarrow> pystr" where
  "ascii_lower s = map (\<lambda>c. if 65 \<le> c \<and> c \<le> 90 then c + 32 else c) s"

section \<open>Intent detection (app/core/intent.py, app/utils/constants.py)\<close>

text \<open>\<open>INTENT_KEYWORDS\<close>: a dict literal, iterated in insertion order; its keys are distinct.\<close>

definition INTENT_KEYWORDS :: "(pystr \<times> pystr list) list" where
  "INTENT_KEYWORDS =
 [(str ''greeting'',
   [str ''hello'', str ''hi'', str ''hey'', str ''namaste'', str ''good morning'',
    str ''good afternoon'', str ''good evening'', str ''howdy'', str ''greetings'',
    [2344, 2350, 2360, 2381, 2340, 2375],
    [2344, 2350, 2360, 2381, 2325, 2366, 2352]]),
  (str ''fee_query'',
   [str ''fee'', str ''fees'', str ''payment'', str ''amount'', str ''cost'',
    str ''tuition'', str ''charges'', str ''price'', str ''pay'', str ''money'',
    [2358, 2369, 2354, 2381, 2325],
    [2347, 2368, 2360],
    [2346, 2376, 2360, 2375]]),
  (str ''admission'',
   [str ''admission'', str ''apply'', str ''application'', str ''eligibility'',
    str ''seat'', str ''enroll'', str ''enrollment'', str ''join'', str ''entry'',
    [2346, 2381, 2352, 2357, 2375, 2358],
    [2342, 2366, 2326, 2367, 2354, 2366]]),
  (str ''scholarship'',
   [str ''scholarship'', str ''financial aid'', str ''grant'', str ''stipend'',
    str ''merit'', str ''concession'', str ''discount'', str ''waiver'',
    [2331, 2366, 2340, 2381, 2352, 2357, 2371, 2340, 2381, 2340, 2367],
    [2360, 2381, 2325, 2377, 2354, 2352, 2358, 2367, 2346]]),
  (str ''timetable'',
   [str ''timetable'', str ''schedule'', str ''class timing'', str ''lecture'',
    str ''period'', str ''timing'', str ''when'', str ''time'',
    [2360, 2350, 2351],
    [2360, 2350, 2351, 32, 2360, 2366, 2352, 2339, 2368]]),
  (str ''exam'',
   [str ''exam'', str ''examination'', str ''test'', str ''marks'', str ''result'',
    str ''grade'', str ''score'', str ''passing'', str ''fail'',
    [2346, 2352, 2368, 2325, 2381, 2359, 2366],
    [2352, 2367, 2332, 2354, 2381, 2335]]),
  (str ''document'',
   [str ''document'', str ''certificate'', str ''transcript'', str ''bonafide'',
    str ''letter'', str ''attestation'', str ''verification'',
    [2342, 2360, 2381, 2340, 2366, 2357, 2375, 2332, 2364],
    [2346, 2381, 2352, 2350, 2366, 2339, 2346, 2340, 2381, 2352]]),
  (str ''contact'',
   [str ''contact'', str ''phone'', str ''email'', str ''address'', str ''office'',
    str ''location'', str ''where'', str ''reach'',
    [2360, 2306, 2346, 2352, 2381, 2325],
    [2346, 2340, 2366]]),
  (str ''hostel'',
   [str ''hostel'', str ''accommodation'', str ''room'', str ''mess'', str ''stay'',
    str ''living'', str ''dormitory'',
    [2361, 2377, 2360, 2381, 2335, 2354],
    [2331, 2366, 2340, 2381, 2352, 2366, 2357, 2366, 2360]]),
  (str ''library'',
   [str ''library'', str ''book'', str ''borrow'', str ''return'', str ''reading'',
    [2346, 2369, 2360, 2381, 2340, 2325, 2366, 2354, 2351],
    [2325, 2367, 2340, 2366, 2348]]),
  (str ''goodbye'',
   [str ''bye'', str ''goodbye'', str ''see you'', str ''thank you'', str ''thanks'',
    [2343, 2344, 2381, 2351, 2357, 2366, 2342],
    [2309, 2354, 2357, 2367, 2342, 2366],
    str ''good bye''])]"

text \<open>\<open>self.intent_priority\<close> of \<open>IntentDetector.__init__\<close>.\<close>

definition intent_priority :: "(pystr \<times> nat) list" where
  "intent_priority =
 [(str ''greeting'', 1), (str ''goodbye'', 1), (str ''fee_query'', 2),
  (str ''admission'', 2), (str ''scholarship'', 2), (str ''timetable'', 2),
  (str ''exam'', 2), (str ''document'', 2), (str ''contact'', 2),
  (str ''hostel'', 2), (str ''library'', 2)]"

text \<open>\<open>d.get(k, default)\<close> on a dict held as an association list.\<close>

definition dict_get :: "('k \<times> 'v) list \<Rightarrow> 'k \<Rightarrow> 'v \<Rightarrow> 'v" where
  "dict_get d k dflt = (case map_of d k of Some v \<Rightarrow> v | None \<Rightarrow> dflt)"

text \<open>
  The result dict of \<open>detect_intent\<close>. The key \<open>all_matches\<close> is present only on
  the path that found a keyword.
\<close>

record intent_result =
  intent :: pystr
  confidence :: rat
  matched_keywords :: "pystr list"
  all_matches :: "(pystr \<times> pystr list) list option"

text \<open>
  The inner loop of \<open>detect_intent\<close>: the keywords of one intent, in table order, whose
  lower-cased form occurs in the lower-cased text.
\<close>

definition keyword_matches :: "(pystr \<Rightarrow> pystr) \<Rightarrow> pystr \<Rightarrow> pystr list \<Rightarrow> pystr list" where
  "keyword_matches lower text_lower keywords =
     filter (\<lambda>keyword. sublist (lower keyword) text_lower) keywords"

text \<open>
  The outer loop. It fills the dicts \<open>intent_scores\<close> and \<open>matched_keywords\<close> with one
  entry per intent that has a match; both are kept here in one list of triples
  \<open>(intent, score, matches)\<close>, in insertion order.
\<close>

fun score_intents ::
  "(pystr \<Rightarrow> pystr) \<Rightarrow> pystr \<Rightarrow> (pystr \<times> pystr list) list \<Rightarrow> (pystr \<times> rat \<times> pystr list) list" where
  "score_intents lower text_lower [] = []"
| "score_intents lower text_lower ((intnt, keywords) # rest) =
     (let matches = keyword_matches lower text_lower keywords in
      if matches \<noteq> []
      then (intnt, of_nat (length matches) * (1 / of_nat (dict_get intent_priority intnt 2)), matches)
             # score_intents lower text_lower rest
      else score_intents lower text_lower rest)"

text \<open>
  \<open>max(intent_scores, key=intent_scores.get)\<close>: the first entry, in iteration order,
  whose score no later entry exceeds. \<open>max\<close> keeps its current best unless the next
  item is strictly greater.
\<close>

fun max_by_score :: "(pystr \<times> rat \<times> pystr list) \<Rightarrow> (pystr \<times> rat \<times> pystr list) list \<Rightarrow> (pystr \<times> rat \<times> pystr list)" where
  "max_by_score best [] = best"
| "max_by_score best (x # xs) =
     (if fst (snd x) > fst (snd best) then max_by_score x xs else max_by_score best xs)"

definition detect_intent :: "(pystr \<Rightarrow> pystr) \<Rightarrow> pystr \<Rightarrow> intent_result" where
  "detect_intent lower text =
     (if text = [] then
        \<lparr>intent = str ''general'', confidence = 0, matched_keywords = [], all_matches = None\<rparr>
      else
        let text_lower = lower text;
            scored = score_intents lower text_lower INTENT_KEYWORDS
        in case scored of
             [] \<Rightarrow>
               \<lparr>intent = str ''general'', confidence = 1 / 2, matched_keywords = [],
                all_matches = None\<rparr>
           | s # ss \<Rightarrow>
               (let best = max_by_score s ss;
                    best_intent = fst best;
                    max_score = fst (snd best);
                    max_keywords = length (dict_get INTENT_KEYWORDS best_intent []);
                    matched = map (\<lambda>(i, sc, ms). (i, ms)) scored
                in \<lparr>intent = best_intent,
                    confidence = min (max_score / of_nat (max max_keywords 1)) 1,
                    matched_keywords = dict_get matched best_intent [],
                    all_matches = Some matched\<rparr>))"

text \<open>\<open>needs_human_fallback\<close>: the loop over the phrases returns at the first hit.\<close>

definition human_required_keywords :: "pystr list" where
  "human_required_keywords =
 [str ''speak to someone'', str ''talk to human'', str ''real person'',
  str ''manager'', str ''supervisor'', str ''complaint'', str ''urgent'',
  str ''emergency'', str ''help me please'', str ''not working'']"

fun first_keyword_in :: "pystr list \<Rightarrow> pystr \<Rightarrow> bool" where
  "first_keyword_in [] text_lower = False"
| "first_keyword_in (keyword # rest) text_lower =
     (if sublist keyword text_lower then True else first_keyword_in rest text_lower)"

definition needs_human_fallback :: "(pystr \<Rightarrow> pystr) \<Rightarrow> pystr \<Rightarrow> rat \<Rightarrow> bool" where
  "needs_human_fallback lower text conf =
     (let text_lower = lower text in
      if first_keyword_in human_required_keywords text_lower then True
      else if conf < 3 / 10 then True
      else False)"

text \<open>
  The condition "some keyword of the intent table occurs in the text, letter case
  ignored", as a test that can be run: it is the test the inner loop makes, over the
  whole table.
\<close>

definition keyword_occurs :: "(pystr \<Rightarrow> pystr) \<Rightarrow> pystr \<Rightarrow> bool" where
  "keyword_occurs lower text =
     list_ex (\<lambda>(intnt, keywords). list_ex (\<lambda>keyword. sublist (lower keyword) (lower text)) keywords)
       INTENT_KEYWORDS"

section \<open>Conversation context (app/core/context.py)\<close>

text \<open>
  \<open>datetime.utcnow()\<close> reads the clock. A reading is an integer, the microseconds since
  the epoch; a \<open>timedelta\<close> is a difference of readings. Every function that reads the
  clock takes its readings as arguments, one per call of \<open>utcnow\<close>, in the order of the
  calls.
\<close>

type_synonym time = int

datatype LanguageEnum = ENGLISH | HINDI | TAMIL | TELUGU | BENGALI | MARATHI

fun lang_value :: "LanguageEnum \<Rightarrow> pystr" where
  "lang_value ENGLISH = str ''en''"
| "lang_value HINDI = str ''hi''"
| "lang_value TAMIL = str ''ta''"
| "lang_value TELUGU = str ''te''"
| "lang_value BENGALI = str ''bn''"
| "lang_value MARATHI = str ''mr''"

text \<open>
  The metadata dict of a message: \<open>add_assistant_message\<close> sets the key \<open>sources\<close> when
  the list is not empty and the key \<open>confidence\<close> when the value is not \<open>None\<close>.
\<close>

record msg_metadata =
  meta_sources :: "pystr list option"
  meta_confidence :: "rat option"

definition empty_metadata :: msg_metadata where
  "empty_metadata = \<lparr>meta_sources = None, meta_confidence = None\<rparr>"

record message =
  msg_role :: pystr
  msg_content :: pystr
  msg_language :: pystr
  msg_timestamp :: time
  msg_metadata :: msg_metadata

text \<open>An entity value is a string or, for the semester, an integer.\<close>

datatype entity_value = EStr pystr | EInt int

record ConversationContext =
  session_id :: pystr
  language :: LanguageEnum
  messages :: "message list"
  max_messages :: int
  metadata :: "(pystr \<times> entity_value) list"
  created_at :: time
  updated_at :: time
  entities :: "(pystr \<times> entity_value) list"
  intent_history :: "pystr list"

text \<open>\<open>ConversationContext.__init__\<close>: two clock readings, in this order.\<close>

definition new_context :: "time \<Rightarrow> time \<Rightarrow> pystr \<Rightarrow> LanguageEnum \<Rightarrow> int \<Rightarrow> ConversationContext" where
  "new_context t_created t_updated sid lang maxm =
     \<lparr>session_id = sid, language = lang, messages = [], max_messages = maxm, metadata = [],
      created_at = t_created, updated_at = t_updated, entities = [], intent_history = []\<rparr>"

text \<open>
  The slice \<open>xs[start:]\<close>: a negative start counts from the end and is clipped at the
  front, so \<open>xs[-n:]\<close> is the last \<open>n\<close> items for \<open>n > 0\<close>, and \<open>xs[-0:]\<close> is all of
  \<open>xs\<close>.
\<close>

definition slice_from :: "int \<Rightarrow> 'a list \<Rightarrow> 'a list" where
  "slice_from start xs =
     (if start < 0 then drop (nat (int (length xs) + start)) xs else drop (nat start) xs)"

text \<open>
  \<open>x or y\<close> on an optional string: \<open>None\<close> and the empty string are both falsy.
\<close>

definition str_or :: "pystr option \<Rightarrow> pystr \<Rightarrow> pystr" where
  "str_or x y = (case x of None \<Rightarrow> y | Some s \<Rightarrow> if s = [] then y else s)"

definition add_message ::
  "time \<Rightarrow> time \<Rightarrow> pystr \<Rightarrow> pystr \<Rightarrow> pystr option \<Rightarrow> msg_metadata option \<Rightarrow>
   ConversationContext \<Rightarrow> ConversationContext" where
  "add_message t_stamp t_now role content lang meta self =
     (let message = \<lparr>msg_role = role, msg_content = content,
                     msg_language = str_or lang (lang_value (language self)),
                     msg_timestamp = t_stamp,
                     msg_metadata = (case meta of None \<Rightarrow> empty_metadata | Some m \<Rightarrow> m)\<rparr>;
          self = self\<lparr>messages := messages self @ [message]\<rparr>;
          self = self\<lparr>updated_at := t_now\<rparr>
      in if int (length (messages self)) > max_messages self
         then self\<lparr>messages := slice_from (- max_messages self) (messages self)\<rparr>
         else self)"

definition add_user_message ::
  "time \<Rightarrow> time \<Rightarrow> pystr \<Rightarrow> pystr option \<Rightarrow> ConversationContext \<Rightarrow> ConversationContext" where
  "add_user_message t_stamp t_now content lang self =
     add_message t_stamp t_now (str ''user'') content lang None self"

definition add_assistant_message ::
  "time \<Rightarrow> time \<Rightarrow> pystr \<Rightarrow> pystr option \<Rightarrow> pystr list option \<Rightarrow> rat option \<Rightarrow>
   ConversationContext \<Rightarrow> ConversationContext" where
  "add_assistant_message t_stamp t_now content lang sources conf self =
     (let meta = empty_metadata;
          meta = (case sources of
                    None \<Rightarrow> meta
                  | Some ss \<Rightarrow> if ss \<noteq> [] then meta\<lparr>meta_sources := Some ss\<rparr> else meta);
          meta = (case conf of
                    None \<Rightarrow> meta
                  | Some c \<Rightarrow> meta\<lparr>meta_confidence := Some c\<rparr>)
      in add_message t_stamp t_now (str ''assistant'') content lang (Some meta) self)"

text \<open>
  \<open>dict.update\<close>: the new entries are stored in their order; a key already present keeps
  its place and takes the new value, a new key goes to the end.
\<close>

definition dict_update :: "('k \<times> 'v) list \<Rightarrow> ('k \<times> 'v) list \<Rightarrow> ('k \<times> 'v) list" where
  "dict_update d new = foldl (\<lambda>acc (k, v). AList.update k v acc) d new"

definition update_entities ::
  "time \<Rightarrow> (pystr \<times> entity_value) list \<Rightarrow> ConversationContext \<Rightarrow> ConversationContext" where
  "update_entities t_now new_entities self =
     (let self = self\<lparr>entities := dict_update (entities self) new_entities\<rparr>
      in self\<lparr>updated_at := t_now\<rparr>)"

definition add_intent :: "pystr \<Rightarrow> ConversationContext \<Rightarrow> ConversationContext" where
  "add_intent intnt self =
     (let self = self\<lparr>intent_history := intent_history self @ [intnt]\<rparr>
      in if length (intent_history self) > 5
         then self\<lparr>intent_history := slice_from (- 5) (intent_history self)\<rparr>
         else self)"

text \<open>
  One call of a mutating method of a context, with its arguments and clock readings, so
  that a sequence of calls is a list.
\<close>

datatype context_op =
    AddMessage time time pystr pystr "pystr option" "msg_metadata option"
  | AddUserMessage time time pystr "pystr option"
  | AddAssistantMessage time time pystr "pystr option" "pystr list option" "rat option"
  | UpdateEntities time "(pystr \<times> entity_value) list"
  | AddIntent pystr

fun apply_op :: "context_op \<Rightarrow> ConversationContext \<Rightarrow> ConversationContext" where
  "apply_op (AddMessage t1 t2 role content lang meta) self =
     add_message t1 t2 role content lang meta self"
| "apply_op (AddUserMessage t1 t2 content lang) self = add_user_message t1 t2 content lang self"
| "apply_op (AddAssistantMessage t1 t2 content lang sources conf) self =
     add_assistant_message t1 t2 content lang sources conf self"
| "apply_op (UpdateEntities t new_entities) self = update_entities t new_entities self"
| "apply_op (AddIntent intnt) self = add_intent intnt self"

fun apply_ops :: "context_op list \<Rightarrow> ConversationContext \<Rightarrow> ConversationContext" where
  "apply_ops [] self = self"
| "apply_ops (c # cs) self = apply_ops cs (apply_op c self)"

text \<open>The clock reading an operation stores in \<open>updated_at\<close>, when it stores one.\<close>

fun op_clock :: "context_op \<Rightarrow> time option" where
  "op_clock (AddMessage t1 t2 role content lang meta) = Some t2"
| "op_clock (AddUserMessage t1 t2 content lang) = Some t2"
| "op_clock (AddAssistantMessage t1 t2 content lang sources conf) = Some t2"
| "op_clock (UpdateEntities t new_entities) = Some t"
| "op_clock (AddIntent intnt) = None"

text \<open>The invariant of a context that the data model states.\<close>

definition context_invariant :: "ConversationContext \<Rightarrow> bool" where
  "context_invariant c \<longleftrightarrow>
     int (length (messages c)) \<le> max_messages c \<and>
     length (intent_history c) \<le> 5 \<and>
     created_at c \<le> updated_at c"

text \<open>A sequence of operations to run the model on.\<close>

definition eleven_questions :: "context_op list" where
  "eleven_questions =
     [AddIntent (str ''fee_query''),
      AddUserMessage 5 5 (str ''question 1'') None,
      AddUserMessage 6 6 (str ''question 2'') None,
      AddUserMessage 7 7 (str ''question 3'') None,
      AddUserMessage 8 8 (str ''question 4'') None,
      AddUserMessage 9 9 (str ''question 5'') None,
      AddUserMessage 10 10 (str ''question 6'') None,
      AddUserMessage 11 11 (str ''question 7'') None,
      AddUserMessage 12 12 (str ''question 8'') None,
      AddUserMessage 13 13 (str ''question 9'') None,
      AddUserMessage 14 14 (str ''question 10'') None,
      AddUserMessage 15 15 (str ''question 11'') None,
      UpdateEntities 16 [(str ''year'', EStr (str ''2024''))]]"

section \<open>Context store (app/core/context.py)\<close>

text \<open>
  The exceptions the modelled code can raise. An exception of the program is a value;
  a function that can raise returns a sum, \<open>Inl\<close> the exception, next to the state it
  leaves behind, since a raise does not undo the mutations made before it.
\<close>

datatype py_exception =
    StopIteration
  | KeyError pystr
  | ValueError pystr
  | ValidationError
  | RuntimeError pystr
  | OverflowError

text \<open>
  \<open>ContextManager\<close>. \<open>sessions\<close> is an \<open>OrderedDict\<close>: an association list in insertion
  order, oldest first. \<open>session_timeout\<close> is the \<open>timedelta\<close> in microseconds.
\<close>

record ContextManager =
  sessions :: "(pystr \<times> ConversationContext) list"
  max_sessions :: int
  session_timeout :: int

definition new_manager :: "int \<Rightarrow> int \<Rightarrow> ContextManager" where
  "new_manager maxs session_timeout_minutes =
     \<lparr>sessions = [], max_sessions = maxs,
      session_timeout = session_timeout_minutes * 60 * 1000000\<rparr>"

text \<open>
  The \<open>while\<close> loop of \<open>_cleanup_old_sessions\<close>. \<open>next(iter(self.sessions))\<close> is the
  oldest key and raises \<open>StopIteration\<close> on an empty dict, which a negative
  \<open>max_sessions\<close> reaches.
\<close>

function evict_excess ::
  "int \<Rightarrow> (pystr \<times> ConversationContext) list \<Rightarrow>
   (py_exception + unit) \<times> (pystr \<times> ConversationContext) list" where
  "evict_excess maxs ss =
     (if int (length ss) > maxs then
        (case ss of
           [] \<Rightarrow> (Inl StopIteration, ss)
         | (oldest_sid, c) # rest \<Rightarrow> evict_excess maxs (AList.delete oldest_sid ss))
      else (Inr (), ss))"
  by pat_completeness auto
termination
  by (relation "measure (\<lambda>(maxs, ss). length ss)")
     (auto simp: le_imp_less_Suc length_delete_le)

declare evict_excess.simps [simp del]

definition cleanup_old_sessions ::
  "time \<Rightarrow> ContextManager \<Rightarrow> (py_exception + unit) \<times> ContextManager" where
  "cleanup_old_sessions now self =
     (let expired = map fst (filter (\<lambda>(sid, ctx). now - updated_at ctx > session_timeout self)
                                    (sessions self));
          self = self\<lparr>sessions := foldl (\<lambda>d sid. AList.delete sid d) (sessions self) expired\<rparr>;
          (r, ss) = evict_excess (max_sessions self) (sessions self)
      in (r, self\<lparr>sessions := ss\<rparr>))"

text \<open>
  \<open>get_or_create_session\<close>. The three clock readings are those of the creation path
  (\<open>created_at\<close>, \<open>updated_at\<close>, then \<open>now\<close> of the cleanup); the path that finds the
  session reads no clock. The result is the context returned, or the exception.
\<close>

definition get_or_create_session ::
  "time \<Rightarrow> time \<Rightarrow> time \<Rightarrow> pystr \<Rightarrow> LanguageEnum \<Rightarrow> ContextManager \<Rightarrow>
   (py_exception + ConversationContext) \<times> ContextManager" where
  "get_or_create_session t_created t_updated t_now sid lang self =
     (case map_of (sessions self) sid of
        Some ctx \<Rightarrow>
          (Inr ctx, self\<lparr>sessions := AList.delete sid (sessions self) @ [(sid, ctx)]\<rparr>)
      | None \<Rightarrow>
          (let context = new_context t_created t_updated sid lang 10;
               self = self\<lparr>sessions := AList.update sid context (sessions self)\<rparr>;
               (r, self) = cleanup_old_sessions t_now self
           in case r of Inl e \<Rightarrow> (Inl e, self) | Inr u \<Rightarrow> (Inr context, self)))"

definition get_session :: "pystr \<Rightarrow> ContextManager \<Rightarrow> ConversationContext option" where
  "get_session sid self = map_of (sessions self) sid"

definition get_session_count :: "ContextManager \<Rightarrow> nat" where
  "get_session_count self = length (sessions self)"

text \<open>
  A sequence of \<open>get_or_create_session\<close> calls, each with its clock readings, session id
  and language; it stops at the first call that raises.
\<close>

record create_call =
  call_created :: time
  call_updated :: time
  call_now :: time
  call_sid :: pystr
  call_lang :: LanguageEnum

fun create_sessions ::
  "create_call list \<Rightarrow> ContextManager \<Rightarrow> (py_exception + unit) \<times> ContextManager" where
  "create_sessions [] self = (Inr (), self)"
| "create_sessions (c # cs) self =
     (case get_or_create_session (call_created c) (call_updated c) (call_now c) (call_sid c)
             (call_lang c) self of
        (Inl e, self') \<Rightarrow> (Inl e, self')
      | (Inr ctx, self') \<Rightarrow> create_sessions cs self')"

text \<open>The dict entry a creating call stores: the session id and the new context.\<close>

definition created_entry :: "create_call \<Rightarrow> pystr \<times> ConversationContext" where
  "created_entry c =
     (call_sid c, new_context (call_created c) (call_updated c) (call_sid c) (call_lang c) 10)"

section \<open>Floating point\<close>

text \<open>
  A Python \<open>float\<close> is an IEEE 754 binary64 number: a significand of 53 bits and a
  power of two, the least one \<open>2 ** -1074\<close>. A finite \<open>float\<close> is held as the rational
  number it is. Each operation returns the exact result rounded to the nearest
  \<open>float\<close>, the one with the even significand when two are equally near; that
  rounding is \<open>round_binary64\<close>, here without a largest exponent: a result of
  magnitude \<open>2 ** 1024\<close> or more is the overflow of the operation.

  \<open>bit_length\<close> is \<open>int.bit_length\<close> and \<open>float_exponent x\<close> the integer \<open>e\<close> with
  \<open>2 ** e <= |x| < 2 ** (e + 1)\<close>, for \<open>x\<close> not zero.
\<close>

fun bit_length :: "nat \<Rightarrow> nat" where
  "bit_length n = (if n = 0 then 0 else Suc (bit_length (n div 2)))"

declare bit_length.simps [simp del]

definition pow2 :: "int \<Rightarrow> rat" where
  "pow2 k = (if 0 \<le> k then 2 ^ nat k else 1 / 2 ^ nat (- k))"

definition float_exponent :: "rat \<Rightarrow> int" where
  "float_exponent x =
     (if 1 \<le> \<bar>x\<bar> then int (bit_length (nat \<lfloor>\<bar>x\<bar>\<rfloor>)) - 1
      else - int (bit_length (nat (\<lceil>1 / \<bar>x\<bar>\<rceil> - 1))))"

definition round_half_even :: "rat \<Rightarrow> int" where
  "round_half_even y =
     (let n = \<lfloor>y\<rfloor>; r = y - of_int n
      in if r < 1 / 2 then n else if 1 / 2 < r then n + 1 else if even n then n else n + 1)"

definition round_binary64 :: "rat \<Rightarrow> rat" where
  "round_binary64 x =
     (if x = 0 then 0
      else let e = max (float_exponent x) (- 1022); ulp = pow2 (e - 52)
           in of_int (round_half_even (x / ulp)) * ulp)"

text \<open>
  The conversion of an \<open>int\<close> to a \<open>float\<close>, which an \<open>int\<close> operand of a \<open>float\<close>
  operation goes through: it raises \<open>OverflowError\<close> (\<open>int too large to convert to
  float\<close>) when the rounded value is out of range.
\<close>

definition float_of_int :: "int \<Rightarrow> py_exception + rat" where
  "float_of_int n =
     (let x = round_binary64 (of_int n)
      in if 2 ^ 1024 \<le> \<bar>x\<bar> then Inl OverflowError else Inr x)"

section \<open>FAQ search (app/services/faq_service.py, app/utils/helpers.py)\<close>

text \<open>
  The Unicode tables behind the built-ins that the FAQ search uses: \<open>str.lower\<close>, the
  class \<open>\w\<close> of the regular expressions and the white space of \<open>\s\<close> and
  \<open>str.split\<close>. They are parameters of the model; \<open>ascii_unicode\<close> is what they are on
  ASCII text.
\<close>

record unicode =
  lower_of :: "pystr \<Rightarrow> pystr"
  is_word :: "nat \<Rightarrow> bool"
  is_space :: "nat \<Rightarrow> bool"

definition ascii_unicode :: unicode where
  "ascii_unicode =
     \<lparr>lower_of = ascii_lower,
      is_word = (\<lambda>c. (48 \<le> c \<and> c \<le> 57) \<or> (65 \<le> c \<and> c \<le> 90) \<or> (97 \<le> c \<and> c \<le> 122) \<or> c = 95),
      is_space = (\<lambda>c. c = 32 \<or> (9 \<le> c \<and> c \<le> 13) \<or> (28 \<le> c \<and> c \<le> 31))\<rparr>"

text \<open>\<open>str.split()\<close>: the maximal runs of characters that are not white space.\<close>

fun split_ws :: "(nat \<Rightarrow> bool) \<Rightarrow> pystr \<Rightarrow> pystr \<Rightarrow> pystr list" where
  "split_ws sp cur [] = (if cur = [] then [] else [cur])"
| "split_ws sp cur (c # cs) =
     (if sp c then (if cur = [] then split_ws sp [] cs else cur # split_ws sp [] cs)
      else split_ws sp (cur @ [c]) cs)"

definition stop_words :: "pystr list" where
  "stop_words = [
  str ''the'', str ''a'', str ''an'', str ''is'', str ''are'', str ''was'', str ''were'',
  str ''be'', str ''been'', str ''being'', str ''have'', str ''has'', str ''had'',
  str ''do'', str ''does'', str ''did'', str ''will'', str ''would'', str ''could'',
  str ''should'', str ''may'', str ''might'', str ''can'', str ''to'', str ''of'',
  str ''in'', str ''for'', str ''on'', str ''with'', str ''at'', str ''by'', str ''from'',
  str ''as'', str ''into'', str ''about'', str ''like'', str ''through'', str ''after'',
  str ''over'', str ''between'', str ''out'', str ''against'', str ''during'',
  str ''without'', str ''before'', str ''under'', str ''around'', str ''among'',
  str ''and'', str ''or'', str ''but'', str ''if'', str ''then'', str ''else'',
  str ''when'', str ''up'', str ''down'', str ''that'', str ''this'', str ''these'',
  str ''those'', str ''what'', str ''which'', str ''who'', str ''whom'', str ''whose'',
  str ''where'', str ''why'', str ''how'', str ''all'', str ''each'', str ''every'',
  str ''both'', str ''few'', str ''more'', str ''most'', str ''other'', str ''some'',
  str ''such'', str ''no'', str ''nor'', str ''not'', str ''only'', str ''own'',
  str ''same'', str ''so'', str ''than'', str ''too'', str ''very'', str ''just'',
  str ''also'', str ''now'', str ''here'', str ''there'', str ''my'', str ''your'',
  str ''his'', str ''her'', str ''its'', str ''our'', str ''their'', str ''me'',
  str ''you'', str ''him'', str ''us'', str ''them'', str ''i'', str ''we'', str ''he'',
  str ''she'', str ''it'', str ''they'']"

text \<open>The last loop of \<open>extract_keywords\<close>: the first occurrence of each word is kept.\<close>

fun unique_keywords :: "pystr list \<Rightarrow> pystr list \<Rightarrow> pystr list" where
  "unique_keywords seen [] = []"
| "unique_keywords seen (word # rest) =
     (if word \<in> set seen then unique_keywords seen rest
      else word # unique_keywords (word # seen) rest)"

definition extract_keywords :: "unicode \<Rightarrow> pystr \<Rightarrow> int \<Rightarrow> pystr list" where
  "extract_keywords U text min_length =
     (let text = filter (\<lambda>c. is_word U c \<or> is_space U c) (lower_of U text);
          words = split_ws (is_space U) [] text;
          keywords = filter (\<lambda>word. int (length word) \<ge> min_length \<and> word \<notin> set stop_words)
                            words
      in unique_keywords [] keywords)"

text \<open>
  An FAQ document is a dict loaded from the database or a JSON file: any key may be
  missing. \<open>faq["question"]\<close> and \<open>faq["answer"]\<close> raise \<open>KeyError\<close> on a missing
  key, the other keys are read with \<open>get\<close> and a default.
\<close>

record faq =
  faq_question :: "pystr option"
  faq_answer :: "pystr option"
  faq_category :: "pystr option"
  faq_keywords :: "pystr list option"
  faq_priority :: "int option"

definition opt_get :: "'a option \<Rightarrow> 'a \<Rightarrow> 'a" where
  "opt_get x dflt = (case x of None \<Rightarrow> dflt | Some v \<Rightarrow> v)"

text \<open>
  One entry of \<open>scored_faqs\<close>. \<open>matched_keywords\<close> is \<open>list(matches)\<close> of a Python set,
  whose order is not determined; it is kept as the set.
\<close>

record scored_faq =
  sf_question :: pystr
  sf_answer :: pystr
  sf_category :: pystr
  sf_score :: rat
  sf_matched_keywords :: "pystr set"

record search_result =
  res_matches :: "scored_faq list"
  res_total :: nat
  res_error :: "py_exception option"

text \<open>The test \<open>category and faq.get("category", "").lower() != category.lower()\<close>.\<close>

definition category_skips :: "unicode \<Rightarrow> pystr option \<Rightarrow> faq \<Rightarrow> bool" where
  "category_skips U category f =
     (case category of
        None \<Rightarrow> False
      | Some cat \<Rightarrow> cat \<noteq> [] \<and> lower_of U (opt_get (faq_category f) []) \<noteq> lower_of U cat)"

text \<open>\<open>all_faq_keywords\<close>: the declared keywords, lower-cased, with those of the question.\<close>

definition all_faq_keywords :: "unicode \<Rightarrow> faq \<Rightarrow> pystr set" where
  "all_faq_keywords U f =
     (let faq_kws = set (map (lower_of U) (opt_get (faq_keywords f) []));
          question_keywords =
            set (extract_keywords U (lower_of U (opt_get (faq_question f) [])) 3)
      in faq_kws \<union> question_keywords)"

text \<open>
  The score of an FAQ with matches. \<open>len(matches) / max(len(query_keywords), 1)\<close> is
  the quotient of two \<open>int\<close>s rounded once; it is at most 1, the matches being query
  keywords. \<open>faq.get("priority", 0) * 0.1\<close> converts the priority to a \<open>float\<close>, which
  can raise, and multiplies it with the \<open>float\<close> nearest to one tenth.
\<close>

definition final_score :: "pystr set \<Rightarrow> pystr set \<Rightarrow> faq \<Rightarrow> py_exception + rat" where
  "final_score query_keywords found f =
     (let score = round_binary64 (of_nat (card found) / of_nat (max (card query_keywords) 1))
      in case float_of_int (opt_get (faq_priority f) 0) of
           Inl e \<Rightarrow> Inl e
         | Inr priority \<Rightarrow>
             (let priority_boost = round_binary64 (priority * round_binary64 (1 / 10))
              in Inr (min (round_binary64 (score + priority_boost)) 1)))"

text \<open>
  The loop over the FAQs. It stops at the first FAQ with a match whose priority is too
  large for a \<open>float\<close> (\<open>OverflowError\<close>) or that lacks its question or its answer
  (\<open>KeyError\<close>).
\<close>

fun score_faqs ::
  "unicode \<Rightarrow> pystr set \<Rightarrow> pystr option \<Rightarrow> faq list \<Rightarrow> py_exception + scored_faq list" where
  "score_faqs U query_keywords category [] = Inr []"
| "score_faqs U query_keywords category (f # rest) =
     (if category_skips U category f then score_faqs U query_keywords category rest
      else
        let found = query_keywords \<inter> all_faq_keywords U f in
        if found \<noteq> {} then
          (case final_score query_keywords found f of
             Inl e \<Rightarrow> Inl e
           | Inr score \<Rightarrow>
               (case faq_question f of
                  None \<Rightarrow> Inl (KeyError (str ''question''))
                | Some q \<Rightarrow>
                    (case faq_answer f of
                       None \<Rightarrow> Inl (KeyError (str ''answer''))
                     | Some a \<Rightarrow>
                         (case score_faqs U query_keywords category rest of
                            Inl e \<Rightarrow> Inl e
                          | Inr scored \<Rightarrow>
                              Inr (\<lparr>sf_question = q, sf_answer = a,
                                    sf_category = opt_get (faq_category f) (str ''general''),
                                    sf_score = score,
                                    sf_matched_keywords = found\<rparr> # scored)))))
        else score_faqs U query_keywords category rest)"

text \<open>\<open>query_keywords = set(extract_keywords(query.lower()))\<close>.\<close>

definition query_keyword_set :: "unicode \<Rightarrow> pystr \<Rightarrow> pystr set" where
  "query_keyword_set U query = set (extract_keywords U (lower_of U query) 3)"

text \<open>The slice \<open>xs[:stop]\<close>; a negative stop counts from the end.\<close>

definition slice_to :: "int \<Rightarrow> 'a list \<Rightarrow> 'a list" where
  "slice_to stop xs =
     (if stop < 0 then take (nat (int (length xs) + stop)) xs else take (nat stop) xs)"

text \<open>
  \<open>search_faqs\<close>. \<open>faqs\<close> is what \<open>_get_faqs(language)\<close> returned, the FAQs stored for
  the language. \<open>list.sort(key=..., reverse=True)\<close> is stable: items of equal score
  keep their order, which is that of \<open>sort_key\<close> on the negated score.
\<close>

definition search_faqs ::
  "unicode \<Rightarrow> faq list \<Rightarrow> pystr \<Rightarrow> pystr option \<Rightarrow> int \<Rightarrow> search_result" where
  "search_faqs U faqs query category limit =
     (if faqs = [] then \<lparr>res_matches = [], res_total = 0, res_error = None\<rparr>
      else
        let query_keywords = query_keyword_set U query in
        case score_faqs U query_keywords category faqs of
          Inl e \<Rightarrow> \<lparr>res_matches = [], res_total = 0, res_error = Some e\<rparr>
        | Inr scored_faqs \<Rightarrow>
            (let sorted_faqs = sort_key (\<lambda>x. - sf_score x) scored_faqs
             in \<lparr>res_matches = slice_to limit sorted_faqs,
                 res_total = length sorted_faqs, res_error = None\<rparr>))"

text \<open>Two FAQ documents, to run the search on.\<close>

definition hostel_faq :: faq where
  "hostel_faq =
     \<lparr>faq_question = Some (str ''What is the hostel fee?''),
      faq_answer = Some (str ''It is Rs. 5000.''),
      faq_category = Some (str ''hostel''),
      faq_keywords = Some [str ''Hostel'', str ''room''],
      faq_priority = None\<rparr>"

definition mess_faq :: faq where
  "mess_faq =
     \<lparr>faq_question = Some (str ''When is the mess open?''),
      faq_answer = Some (str ''From 7 to 22.''),
      faq_category = None,
      faq_keywords = None,
      faq_priority = Some 4\<rparr>"

section \<open>Chat pipeline (app/core/chatbot.py)\<close>

subsection \<open>Constants (app/utils/constants.py)\<close>

text \<open>
  \<open>LANGUAGES\<close>: for each language code the dict of its name, flag and canned
  messages. \<open>d[k]\<close> on a dict raises \<open>KeyError\<close> for a key that is not there.
\<close>

record language_info =
  lang_name :: pystr
  lang_native_name :: pystr
  lang_flag :: pystr
  lang_greeting :: pystr
  lang_fallback :: pystr
  lang_error :: pystr
  lang_human_handoff :: pystr

definition LANGUAGES :: "(pystr \<times> language_info) list" where
  "LANGUAGES = [
  (str ''en'',
    \<lparr>lang_name = str ''English'',
      lang_native_name = str ''English'',
      lang_flag = [127468, 127463],
      lang_greeting = str ''Hello! How can I help you today?'',
      lang_fallback = str ''I'' @ [39] @ str ''m sorry, I couldn'' @ [39] @ str ''t understand that. Could you please rephrase?'',
      lang_error = str ''Something went wrong. Please try again.'',
      lang_human_handoff = str ''Let me connect you with a human agent for better assistance.''\<rparr>),
  (str ''hi'',
    \<lparr>lang_name = str ''Hindi'',
      lang_native_name = [2361, 2367, 2306, 2342, 2368],
      lang_flag = [127470, 127475],
      lang_greeting = [2344, 2350, 2360, 2381, 2340, 2375, 33, 32, 2310, 2332, 32, 2350, 2376,
         2306, 32, 2310, 2346, 2325, 2368, 32, 2325, 2376, 2360, 2375, 32, 2350,
         2342, 2342, 32, 2325, 2352, 32, 2360, 2325, 2340, 2366, 32, 2361, 2370,
         2306, 63],
      lang_fallback = [2350, 2369, 2333, 2375, 32, 2326, 2375, 2342, 32, 2361, 2376, 44, 32, 2350,
         2376, 2306, 32, 2351, 2361, 32, 2360, 2350, 2333, 32, 2344, 2361, 2368,
         2306, 32, 2346, 2366, 2351, 2366, 2404, 32, 2325, 2371, 2346, 2351, 2366,
         32, 2342, 2379, 2348, 2366, 2352, 2366, 32, 2325, 2361, 2375, 2306, 2404],
      lang_error = [2325, 2369, 2331, 32, 2327, 2354, 2340, 32, 2361, 2379, 32, 2327, 2351,
         2366, 2404, 32, 2325, 2371, 2346, 2351, 2366, 32, 2346, 2369, 2344, 2307,
         32, 2346, 2381, 2352, 2351, 2366, 2360, 32, 2325, 2352, 2375, 2306, 2404],
      lang_human_handoff = [2348, 2375, 2361, 2340, 2352, 32, 2360, 2361, 2366, 2351, 2340, 2366, 32,
         2325, 2375, 32, 2354, 2367, 2319, 32, 2350, 2376, 2306, 32, 2310, 2346,
         2325, 2379, 32, 2319, 2325, 32, 2350, 2366, 2344, 2357, 32, 2319, 2332,
         2375, 2306, 2335, 32, 2360, 2375, 32, 2332, 2379, 2337, 2364, 2340, 2366,
         32, 2361, 2370, 2306, 2404]\<rparr>),
  (str ''ta'',
    \<lparr>lang_name = str ''Tamil'',
      lang_native_name = [2980, 2990, 3007, 2996, 3021],
      lang_flag = [127470, 127475],
      lang_greeting = [2997, 2979, 2965, 3021, 2965, 2990, 3021, 33, 32, 2951, 2985, 3021, 2993,
         3009, 32, 2984, 3006, 2985, 3021, 32, 2953, 2969, 3021, 2965, 2995, 3009,
         2965, 3021, 2965, 3009, 32, 2958, 2986, 3021, 2986, 2975, 3007, 32, 2953,
         2980, 2997, 32, 2990, 3009, 2975, 3007, 2991, 3009, 2990, 3021, 63],
      lang_fallback = [2990, 2985, 3021, 2985, 3007, 2965, 3021, 2965, 2997, 3009, 2990, 3021, 44,
         32, 2958, 2985, 3021, 2985, 3006, 2994, 3021, 32, 2986, 3009, 2992, 3007,
         2984, 3021, 2980, 3009, 2965, 3018, 2995, 3021, 2995, 32, 2990, 3009, 2975,
         3007, 2991, 2997, 3007, 2994, 3021, 2994, 3016, 46, 32, 2980, 2991, 2997,
         3009, 2970, 3014, 2991, 3021, 2980, 3009, 32, 2990, 3008, 2979, 3021, 2975,
         3009, 2990, 3021, 32, 2965, 3010, 2993, 3009, 2969, 3021, 2965, 2995, 3021,
         46],
      lang_error = [2959, 2980, 3019, 32, 2980, 2997, 2993, 3009, 32, 2959, 2993, 3021, 2986,
         2975, 3021, 2975, 2980, 3009, 46, 32, 2990, 3008, 2979, 3021, 2975, 3009,
         2990, 3021, 32, 2990, 3009, 2991, 2993, 3021, 2970, 3007, 2965, 3021, 2965,
         2997, 3009, 2990, 3021, 46],
      lang_human_handoff = [2970, 3007, 2993, 2984, 3021, 2980, 32, 2953, 2980, 2997, 3007, 2965, 3021,
         2965, 3009, 32, 2984, 3006, 2985, 3021, 32, 2953, 2969, 3021, 2965, 2995,
         3016, 32, 2962, 2992, 3009, 32, 2984, 3007, 2986, 3009, 2979, 2992, 3007,
         2975, 2990, 3021, 32, 2951, 2979, 3016, 2965, 3021, 2965, 3007, 2993, 3015,
         2985, 3021, 46]\<rparr>),
  (str ''te'',
    \<lparr>lang_name = str ''Telugu'',
      lang_native_name = [3108, 3142, 3122, 3137, 3095, 3137],
      lang_flag = [127470, 127475],
      lang_greeting = [3112, 3118, 3128, 3149, 3093, 3134, 3120, 3074, 33, 32, 3080, 3120, 3147,
         3100, 3137, 32, 3112, 3143, 3112, 3137, 32, 3118, 3136, 3093, 3137, 32,
         3086, 3122, 3134, 32, 3128, 3129, 3134, 3119, 3074, 32, 3098, 3143, 3119,
         3095, 3122, 3112, 3137, 63],
      lang_fallback = [3093, 3149, 3127, 3118, 3135, 3074, 3098, 3074, 3105, 3135, 44, 32, 3112,
         3143, 3112, 3137, 32, 3077, 3120, 3149, 3109, 3074, 32, 3098, 3143, 3128,
         3137, 3093, 3147, 3122, 3143, 3093, 3114, 3147, 3119, 3134, 3112, 3137, 46,
         32, 3110, 3119, 3098, 3143, 3128, 3135, 32, 3118, 3123, 3149, 3123, 3136,
         32, 3098, 3142, 3114, 3149, 3114, 3074, 3105, 3135, 46],
      lang_error = [3087, 3110, 3147, 32, 3108, 3114, 3149, 3114, 3137, 32, 3100, 3120, 3135,
         3095, 3135, 3074, 3110, 3135, 46, 32, 3110, 3119, 3098, 3143, 3128, 3135,
         32, 3118, 3123, 3149, 3123, 3136, 32, 3114, 3149, 3120, 3119, 3108, 3149,
         3112, 3135, 3074, 3098, 3074, 3105, 3135, 46],
      lang_human_handoff = [3118, 3142, 3120, 3137, 3095, 3144, 3112, 32, 3128, 3129, 3134, 3119, 3074,
         32, 3093, 3147, 3128, 3074, 32, 3112, 3143, 3112, 3137, 32, 3118, 3135,
         3118, 3149, 3118, 3122, 3149, 3112, 3135, 32, 3090, 3093, 32, 3112, 3135,
         3114, 3137, 3107, 3137, 3105, 3135, 3108, 3147, 32, 3077, 3112, 3137, 3128,
         3074, 3111, 3134, 3112, 3074, 32, 3098, 3143, 3128, 3149, 3108, 3134, 3112,
         3137, 46]\<rparr>),
  (str ''bn'',
    \<lparr>lang_name = str ''Bengali'',
      lang_native_name = [2476, 2494, 2434, 2482, 2494],
      lang_flag = [127470, 127475],
      lang_greeting = [2472, 2478, 2488, 2509, 2453, 2494, 2480, 33, 32, 2438, 2460, 32, 2438,
         2478, 2495, 32, 2438, 2474, 2472, 2494, 2453, 2503, 32, 2453, 2496, 2477,
         2494, 2476, 2503, 32, 2488, 2494, 2489, 2494, 2479, 2509, 2479, 32, 2453,
         2480, 2468, 2503, 32, 2474, 2494, 2480, 2495, 63],
      lang_fallback = [2470, 2497, 2435, 2454, 2495, 2468, 44, 32, 2438, 2478, 2495, 32, 2476,
         2497, 2461, 2468, 2503, 32, 2474, 2494, 2480, 2482, 2494, 2478, 32, 2472,
         2494, 2404, 32, 2437, 2472, 2497, 2455, 2509, 2480, 2489, 32, 2453, 2480,
         2503, 32, 2438, 2476, 2494, 2480, 32, 2476, 2482, 2497, 2472, 2404],
      lang_error = [2453, 2495, 2459, 2497, 32, 2477, 2497, 2482, 32, 2489, 2479, 2492, 2503,
         2459, 2503, 2404, 32, 2437, 2472, 2497, 2455, 2509, 2480, 2489, 32, 2453,
         2480, 2503, 32, 2438, 2476, 2494, 2480, 32, 2458, 2503, 2487, 2509, 2463,
         2494, 32, 2453, 2480, 2497, 2472, 2404],
      lang_human_handoff = [2438, 2480, 2451, 32, 2477, 2494, 2482, 2507, 32, 2488, 2494, 2489, 2494,
         2479, 2509, 2479, 2503, 2480, 32, 2460, 2472, 2509, 2479, 32, 2438, 2478,
         2495, 32, 2438, 2474, 2472, 2494, 2453, 2503, 32, 2447, 2453, 2460, 2472,
         32, 2476, 2495, 2486, 2503, 2487, 2460, 2509, 2462, 2503, 2480, 32, 2488,
         2494, 2469, 2503, 32, 2488, 2434, 2479, 2497, 2453, 2509, 2468, 32, 2453,
         2480, 2459, 2495, 2404]\<rparr>),
  (str ''mr'',
    \<lparr>lang_name = str ''Marathi'',
      lang_native_name = [2350, 2352, 2366, 2336, 2368],
      lang_flag = [127470, 127475],
      lang_greeting = [2344, 2350, 2360, 2381, 2325, 2366, 2352, 33, 32, 2310, 2332, 32, 2350,
         2368, 32, 2340, 2369, 2350, 2381, 2361, 2366, 2354, 2366, 32, 2325, 2358,
         2368, 32, 2350, 2342, 2340, 32, 2325, 2352, 2370, 32, 2358, 2325, 2340,
         2379, 63],
      lang_fallback = [2325, 2381, 2359, 2350, 2366, 32, 2325, 2352, 2366, 44, 32, 2350, 2354,
         2366, 32, 2360, 2350, 2332, 2354, 2375, 32, 2344, 2366, 2361, 2368, 46, 32,
         2325, 2371, 2346, 2351, 2366, 32, 2346, 2369, 2344, 2381, 2361, 2366, 32,
         2360, 2366, 2306, 2327, 2366, 46],
      lang_error = [2325, 2366, 2361, 2368, 2340, 2352, 2368, 32, 2330, 2370, 2325, 32, 2333,
         2366, 2354, 2368, 46, 32, 2325, 2371, 2346, 2351, 2366, 32, 2346, 2369,
         2344, 2381, 2361, 2366, 32, 2346, 2381, 2352, 2351, 2340, 2381, 2344, 32,
         2325, 2352, 2366, 46],
      lang_human_handoff = [2309, 2343, 2367, 2325, 32, 2330, 2366, 2306, 2327, 2354, 2381, 2351, 2366,
         32, 2350, 2342, 2340, 2368, 2360, 2366, 2336, 2368, 32, 2350, 2368, 32,
         2340, 2369, 2350, 2381, 2361, 2366, 2354, 2366, 32, 2340, 2332, 2381, 2334,
         2366, 2358, 2368, 32, 2332, 2379, 2337, 2340, 2379, 46]\<rparr>)]"

definition SUGGESTED_QUESTIONS :: "(pystr \<times> pystr list) list" where
  "SUGGESTED_QUESTIONS = [
  (str ''admission'',
    [str ''What are the eligibility criteria?'',
     str ''What documents are required?'',
     str ''What is the application deadline?'']),
  (str ''fees'',
    [str ''What is the semester fee?'',
     str ''What payment methods are accepted?'',
     str ''Is there any late fee penalty?'']),
  (str ''scholarship'',
    [str ''Who is eligible for scholarship?'',
     str ''How to apply for scholarship?'',
     str ''What is the scholarship amount?'']),
  (str ''exam'',
    [str ''When are the exams scheduled?'',
     str ''What is the passing criteria?'',
     str ''How can I check my results?'']),
  (str ''general'',
    [str ''What are the admission requirements?'',
     str ''What is the fee structure?'',
     str ''Are there any scholarships available?''])]"

definition dict_item :: "(pystr \<times> 'v) list \<Rightarrow> pystr \<Rightarrow> py_exception + 'v" where
  "dict_item d k = (case map_of d k of None \<Rightarrow> Inl (KeyError k) | Some v \<Rightarrow> Inr v)"

subsection \<open>Suggested questions (app/core/intent.py)\<close>

definition intent_category_map :: "(pystr \<times> pystr option) list" where
  "intent_category_map =
     [(str ''fee_query'', Some (str ''fees'')),
      (str ''admission'', Some (str ''admission'')),
      (str ''scholarship'', Some (str ''scholarship'')),
      (str ''exam'', Some (str ''exam'')),
      (str ''greeting'', Some (str ''general'')),
      (str ''goodbye'', None)]"

text \<open>
  \<open>get_suggested_questions\<close>. The default \<open>SUGGESTED_QUESTIONS["general"]\<close> of the last
  \<open>get\<close> is evaluated before the \<open>get\<close>.
\<close>

definition get_suggested_questions :: "pystr \<Rightarrow> py_exception + pystr list" where
  "get_suggested_questions intnt =
     (case dict_get intent_category_map intnt (Some (str ''general'')) of
        None \<Rightarrow> Inr []
      | Some category \<Rightarrow>
          (case dict_item SUGGESTED_QUESTIONS (str ''general'') of
             Inl e \<Rightarrow> Inl e
           | Inr general \<Rightarrow> Inr (dict_get SUGGESTED_QUESTIONS category general)))"

subsection \<open>The prompt with the history (app/core/context.py)\<close>

text \<open>
  \<open>str.capitalize\<close> is a built-in that follows the Unicode case tables; it is the
  parameter \<open>capitalize\<close>. \<open>join\<close> is \<open>sep.join(lines)\<close>, the line feed is the code
  point 10.
\<close>

definition get_history :: "int \<Rightarrow> ConversationContext \<Rightarrow> message list" where
  "get_history limit self = slice_from (- limit) (messages self)"

fun join :: "pystr \<Rightarrow> pystr list \<Rightarrow> pystr" where
  "join sep [] = []"
| "join sep [line] = line"
| "join sep (line # next_line # lines) = line @ sep @ join sep (next_line # lines)"

definition get_history_as_text ::
  "(pystr \<Rightarrow> pystr) \<Rightarrow> int \<Rightarrow> ConversationContext \<Rightarrow> pystr" where
  "get_history_as_text capitalize limit self =
     (let history = get_history limit self
      in if history = [] then []
         else join [10]
                (map (\<lambda>msg. capitalize (msg_role msg) @ str '': '' @ msg_content msg) history))"

definition get_context_prompt ::
  "(pystr \<Rightarrow> pystr) \<Rightarrow> pystr \<Rightarrow> pystr \<Rightarrow> ContextManager \<Rightarrow> pystr" where
  "get_context_prompt capitalize sid current_query self =
     (case get_session sid self of
        None \<Rightarrow> current_query
      | Some context \<Rightarrow>
          if messages context = [] then current_query
          else
            let history_text = get_history_as_text capitalize 3 context
            in if history_text = [] then current_query
               else str ''Previous conversation:'' @ [10] @ history_text @ [10, 10] @
                    str ''Current question: '' @ current_query @ [10, 10] @
                    str ''Please consider the conversation context when answering.'')"

subsection \<open>Requests and responses (app/models/schemas.py)\<close>

record ChatRequest =
  req_message :: pystr
  req_language :: LanguageEnum
  req_session_id :: "pystr option"
  req_user_id :: "pystr option"

record ChatResponse =
  resp_response :: pystr
  resp_language :: LanguageEnum
  resp_session_id :: pystr
  resp_confidence_score :: rat
  resp_sources :: "pystr list option"
  resp_suggested_questions :: "pystr list option"
  resp_fallback_required :: bool
  resp_intent :: "pystr option"

text \<open>
  The constructor of \<open>ChatResponse\<close> validates its fields: \<open>confidence_score\<close> is
  declared with \<open>ge=0, le=1\<close>, and a value outside raises \<open>ValidationError\<close>.
\<close>

definition new_ChatResponse ::
  "pystr \<Rightarrow> LanguageEnum \<Rightarrow> pystr \<Rightarrow> rat \<Rightarrow> pystr list option \<Rightarrow> pystr list option \<Rightarrow> bool \<Rightarrow>
   pystr option \<Rightarrow> py_exception + ChatResponse" where
  "new_ChatResponse response lang sid confidence_score sources suggested_questions
     fallback_required intnt =
     (if 0 \<le> confidence_score \<and> confidence_score \<le> 1 then
        Inr \<lparr>resp_response = response, resp_language = lang, resp_session_id = sid,
             resp_confidence_score = confidence_score, resp_sources = sources,
             resp_suggested_questions = suggested_questions,
             resp_fallback_required = fallback_required, resp_intent = intnt\<rparr>
      else Inl ValidationError)"

text \<open>\<open>LanguageEnum(value)\<close>: the member with that value, or \<open>ValueError\<close>.\<close>

definition LanguageEnum_of :: "pystr \<Rightarrow> py_exception + LanguageEnum" where
  "LanguageEnum_of v =
     (case find (\<lambda>member. lang_value member = v)
             [ENGLISH, HINDI, TAMIL, TELUGU, BENGALI, MARATHI] of
        None \<Rightarrow> Inl (ValueError v)
      | Some member \<Rightarrow> Inr member)"

subsection \<open>The services the pipeline calls\<close>

text \<open>
  The pipeline awaits methods of the translation service, the document search (RAG) and
  the language model, which call libraries and the network. Each of these methods is a
  parameter of the model: a function from its arguments to the value it returns or the
  exception it raises. The exceptions are those of class \<open>Exception\<close>, the class that
  the \<open>except\<close> clause of \<open>process_message\<close> names. Of the dict that a method returns
  the model keeps the keys that the pipeline reads:

  \<^item> \<open>detect_language\<close>: \<open>success\<close>, \<open>language\<close>, \<open>confidence\<close>;
  \<^item> \<open>translate_to_english\<close>: the pair of the text and the source language;
  \<open>translate_from_english\<close>: the text;
  \<^item> \<open>rag.generate_answer\<close>: \<open>answer\<close> (or \<open>None\<close>), \<open>sources\<close>, \<open>confidence\<close>;
  \<^item> \<open>llm.generate_response\<close>: \<open>response\<close> when \<open>success\<close> is true, \<open>None\<close> when
  it is not; its system prompt is a constant.

  \<open>extract_entities\<close> of the intent detector, a sequence of regular-expression
  searches, is a parameter as well. \<open>stored_faqs\<close> is what \<open>_get_faqs\<close> returns for a
  language, \<open>generate_session_id\<close> the string of a new UUID.
\<close>

record detection =
  det_success :: bool
  det_language :: pystr
  det_confidence :: rat

record rag_result =
  rag_answer :: "pystr option"
  rag_sources :: "pystr list"
  rag_confidence :: rat

record services =
  generate_session_id :: pystr
  unicode_tables :: unicode
  capitalize :: "pystr \<Rightarrow> pystr"
  detect_language :: "pystr \<Rightarrow> py_exception + detection"
  translate_to_english :: "pystr \<Rightarrow> pystr \<Rightarrow> py_exception + pystr \<times> pystr"
  translate_from_english :: "pystr \<Rightarrow> pystr \<Rightarrow> py_exception + pystr"
  extract_entities :: "pystr \<Rightarrow> py_exception + (pystr \<times> entity_value) list"
  stored_faqs :: "pystr \<Rightarrow> faq list"
  rag_generate_answer :: "pystr \<Rightarrow> py_exception + rag_result"
  llm_generate_response :: "pystr \<Rightarrow> py_exception + pystr option"

text \<open>
  The clock readings of one call of \<open>process_message\<close> that reach a result: those of
  \<open>get_or_create_session\<close>, of \<open>update_entities\<close> and of the two \<open>add_message\<close> calls.
  The readings for the response time are only logged.
\<close>

record clock =
  clk_created :: time
  clk_updated :: time
  clk_cleanup :: time
  clk_entities :: time
  clk_user_stamp :: time
  clk_user_now :: time
  clk_reply_stamp :: time
  clk_reply_now :: time

subsection \<open>\<open>ChatbotService\<close>\<close>

text \<open>
  \<open>_search_faqs\<close>: the best match of the FAQ search in the category of the intent. The
  match dicts of \<open>search_faqs\<close> have all their keys, and \<open>search_faqs\<close> catches its own
  exceptions, so the \<open>except\<close> clause of \<open>_search_faqs\<close> has nothing to catch.
\<close>

record faq_match =
  fm_answer :: pystr
  fm_question :: pystr
  fm_category :: pystr
  fm_confidence :: rat

definition intent_to_category :: "(pystr \<times> pystr) list" where
  "intent_to_category =
     [(str ''fee_query'', str ''fees''),
      (str ''admission'', str ''admission''),
      (str ''scholarship'', str ''scholarship''),
      (str ''exam'', str ''exam''),
      (str ''timetable'', str ''timetable''),
      (str ''document'', str ''documents''),
      (str ''contact'', str ''contact''),
      (str ''hostel'', str ''hostel'')]"

definition chatbot_search_faqs :: "services \<Rightarrow> pystr \<Rightarrow> pystr \<Rightarrow> faq_match option" where
  "chatbot_search_faqs S query intnt =
     (let category = map_of intent_to_category intnt;
          result = search_faqs (unicode_tables S) (stored_faqs S (str ''en'')) query category 5
      in case res_matches result of
           [] \<Rightarrow> None
         | best_match # others \<Rightarrow>
             Some \<lparr>fm_answer = sf_answer best_match, fm_question = sf_question best_match,
                   fm_category = sf_category best_match,
                   fm_confidence = sf_score best_match\<rparr>)"

text \<open>
  The context that \<open>get_or_create_session\<close> returns is the object that the store holds
  under the session id, and the pipeline mutates it in place. In the model the pipeline
  works on the value of the object; \<open>store_object\<close> writes the value to the entry of the
  store, which keeps its place. The cleanup of a creating call can have removed the new
  session from the store: then the store has no entry to write to.
\<close>

definition store_object :: "pystr \<Rightarrow> ConversationContext \<Rightarrow> ContextManager \<Rightarrow> ContextManager" where
  "store_object sid obj self =
     (case map_of (sessions self) sid of
        None \<Rightarrow> self
      | Some stored \<Rightarrow> self\<lparr>sessions := AList.update sid obj (sessions self)\<rparr>)"

text \<open>
  Steps 1 to 3 of \<open>process_message\<close>, up to the call of \<open>extract_entities\<close>: the
  language, the English text, the intent and the entities of the message.
\<close>

definition read_message ::
  "services \<Rightarrow> ChatRequest \<Rightarrow>
   py_exception + pystr \<times> pystr \<times> pystr \<times> (pystr \<times> entity_value) list" where
  "read_message S request =
     (let detected_lang = lang_value (req_language request)
      in case detect_language S (req_message request) of
           Inl e \<Rightarrow> Inl e
         | Inr detection \<Rightarrow>
             (let detected_lang =
                    (if det_success detection \<and> det_confidence detection > 7 / 10
                     then det_language detection else detected_lang)
              in case translate_to_english S (req_message request) detected_lang of
                   Inl e \<Rightarrow> Inl e
                 | Inr (english_message, source_lang) \<Rightarrow>
                     (let intent_result =
                            detect_intent (lower_of (unicode_tables S)) english_message;
                          intnt = intent intent_result
                      in case extract_entities S english_message of
                           Inl e \<Rightarrow> Inl e
                         | Inr ents \<Rightarrow> Inr (detected_lang, english_message, intnt, ents))))"

text \<open>The dict \<open>goodbye_messages\<close> of step 5.\<close>

definition goodbye_messages :: "(pystr \<times> pystr) list" where
  "goodbye_messages = [
  (str ''en'',
    str ''Goodbye! Feel free to ask if you have more questions.''),
  (str ''hi'',
    [2309, 2354, 2357, 2367, 2342, 2366, 33, 32, 2309, 2327, 2352, 32, 2310,
         2346, 2325, 2375, 32, 2324, 2352, 32, 2360, 2357, 2366, 2354, 32, 2361,
         2379, 2306, 32, 2340, 2379, 32, 2346, 2370, 2331, 2375, 2306, 2404]),
  (str ''ta'',
    [2986, 3019, 2991, 3021, 32, 2997, 2992, 3009, 2965, 3007, 2993, 3015, 2985,
         3021, 33, 32, 2953, 2969, 3021, 2965, 2995, 3009, 2965, 3021, 2965, 3009,
         32, 2990, 3015, 2994, 3009, 2990, 3021, 32, 2965, 3015, 2995, 3021, 2997,
         3007, 2965, 2995, 3021, 32, 2951, 2992, 3009, 2984, 3021, 2980, 3006, 2994,
         3021, 32, 2965, 3015, 2995, 3009, 2969, 3021, 2965, 2995, 3021, 46]),
  (str ''te'',
    [3125, 3136, 3105, 3149, 3093, 3147, 3122, 3137, 33, 32, 3118, 3136, 3093,
         3137, 32, 3118, 3120, 3135, 3112, 3149, 3112, 3135, 32, 3114, 3149, 3120,
         3126, 3149, 3112, 3122, 3137, 32, 3081, 3074, 3103, 3143, 32, 3077, 3105,
         3095, 3074, 3105, 3135, 46]),
  (str ''bn'',
    [2476, 2495, 2470, 2494, 2479, 2492, 33, 32, 2438, 2474, 2472, 2494, 2480,
         32, 2438, 2480, 2451, 32, 2474, 2509, 2480, 2486, 2509, 2472, 32, 2469,
         2494, 2453, 2482, 2503, 32, 2460, 2495, 2460, 2509, 2462, 2494, 2488, 2494,
         32, 2453, 2480, 2497, 2472, 2404]),
  (str ''mr'',
    [2344, 2367, 2352, 2379, 2346, 33, 32, 2340, 2369, 2350, 2330, 2381, 2351,
         2366, 32, 2310, 2339, 2326, 2368, 32, 2346, 2381, 2352, 2358, 2381, 2344,
         32, 2309, 2360, 2354, 2381, 2351, 2366, 2360, 32, 2357, 2367, 2330, 2366,
         2352, 2366, 46])]"

text \<open>
  Step 8: the answer of the language model on the prompt with the history, or the
  canned fallback message. \<open>self_context\<close> is the store, which the prompt is built
  from.
\<close>

definition llm_answer ::
  "services \<Rightarrow> pystr \<Rightarrow> pystr \<Rightarrow> pystr \<Rightarrow> ContextManager \<Rightarrow>
   py_exception + pystr \<times> rat \<times> pystr list option" where
  "llm_answer S detected_lang english_message sid self_context =
     (let context_prompt = get_context_prompt (capitalize S) sid english_message self_context
      in case llm_generate_response S context_prompt of
           Inl e \<Rightarrow> Inl e
         | Inr (Some response) \<Rightarrow> Inr (response, 6 / 10, None)
         | Inr None \<Rightarrow>
             (case dict_item LANGUAGES detected_lang of
                Inl e \<Rightarrow> Inl e
              | Inr info \<Rightarrow> Inr (lang_fallback info, 0, None)))"

text \<open>Step 7: the answer of the document search, when it has one above 0.4.\<close>

definition document_answer ::
  "services \<Rightarrow> pystr \<Rightarrow> pystr \<Rightarrow> pystr \<Rightarrow> ContextManager \<Rightarrow>
   py_exception + pystr \<times> rat \<times> pystr list option" where
  "document_answer S detected_lang english_message sid self_context =
     (case rag_generate_answer S english_message of
        Inl e \<Rightarrow> Inl e
      | Inr rag \<Rightarrow>
          (case rag_answer rag of
             None \<Rightarrow> llm_answer S detected_lang english_message sid self_context
           | Some answer \<Rightarrow>
               if answer \<noteq> [] \<and> rag_confidence rag > 4 / 10
               then Inr (answer, rag_confidence rag, Some (rag_sources rag))
               else llm_answer S detected_lang english_message sid self_context))"

text \<open>
  Steps 5 and 6: the canned answer to a greeting or a goodbye, or the answer of the
  best FAQ when its score is above 0.7, before steps 7 and 8. The result is the text,
  the confidence and the sources.
\<close>

definition choose_response ::
  "services \<Rightarrow> pystr \<Rightarrow> pystr \<Rightarrow> pystr \<Rightarrow> pystr \<Rightarrow> ContextManager \<Rightarrow>
   py_exception + pystr \<times> rat \<times> pystr list option" where
  "choose_response S detected_lang english_message intnt sid self_context =
     (if intnt = str ''greeting'' then
        (case dict_item LANGUAGES detected_lang of
           Inl e \<Rightarrow> Inl e
         | Inr info \<Rightarrow> Inr (lang_greeting info, 1, None))
      else if intnt = str ''goodbye'' then
        (case dict_item goodbye_messages (str ''en'') of
           Inl e \<Rightarrow> Inl e
         | Inr goodbye_en \<Rightarrow> Inr (dict_get goodbye_messages detected_lang goodbye_en, 1, None))
      else
        (case chatbot_search_faqs S english_message intnt of
           None \<Rightarrow> document_answer S detected_lang english_message sid self_context
         | Some faq_result \<Rightarrow>
             if fm_confidence faq_result > 7 / 10
             then Inr (fm_answer faq_result, fm_confidence faq_result,
                       Some [str ''FAQ Database''])
             else document_answer S detected_lang english_message sid self_context))"

text \<open>The loop of step 11 over the first three suggested questions.\<close>

fun translate_questions :: "services \<Rightarrow> pystr \<Rightarrow> pystr list \<Rightarrow> py_exception + pystr list" where
  "translate_questions S detected_lang [] = Inr []"
| "translate_questions S detected_lang (q # qs) =
     (case translate_from_english S q detected_lang of
        Inl e \<Rightarrow> Inl e
      | Inr translated_q \<Rightarrow>
          (case translate_questions S detected_lang qs of
             Inl e \<Rightarrow> Inl e
           | Inr translated_questions \<Rightarrow> Inr (translated_q # translated_questions)))"

text \<open>
  Steps 9 to 11: the answer in the language of the user, whether a human is needed, and
  the suggested questions.
\<close>

definition finish_response ::
  "services \<Rightarrow> ChatRequest \<Rightarrow> pystr \<Rightarrow> pystr \<Rightarrow> pystr \<times> rat \<times> pystr list option \<Rightarrow>
   py_exception + pystr \<times> rat \<times> pystr list option \<times> bool \<times> pystr list" where
  "finish_response S request detected_lang intnt chosen =
     (case chosen of (response_text, conf, sources) \<Rightarrow>
        (case (if detected_lang \<noteq> str ''en'' \<and> response_text \<noteq> []
               then translate_from_english S response_text detected_lang
               else Inr response_text) of
           Inl e \<Rightarrow> Inl e
         | Inr response_text \<Rightarrow>
             (let fallback_required =
                    needs_human_fallback (lower_of (unicode_tables S)) (req_message request)
                      conf
              in case get_suggested_questions intnt of
                   Inl e \<Rightarrow> Inl e
                 | Inr suggested_questions \<Rightarrow>
                     (case (if detected_lang \<noteq> str ''en'' \<and> suggested_questions \<noteq> []
                            then translate_questions S detected_lang
                                   (slice_to 3 suggested_questions)
                            else Inr suggested_questions) of
                        Inl e \<Rightarrow> Inl e
                      | Inr suggested_questions \<Rightarrow>
                          Inr (response_text, conf, sources, fallback_required,
                               suggested_questions)))))"

text \<open>
  The body of the \<open>try\<close> statement: the response or the exception, and the context as
  the body leaves it. The three mutations of steps 3 and 4 and the one of step 12 are
  the only ones; none of them raises.
\<close>

definition try_body ::
  "services \<Rightarrow> clock \<Rightarrow> ChatRequest \<Rightarrow> pystr \<Rightarrow> ConversationContext \<Rightarrow> ContextManager \<Rightarrow>
   (py_exception + ChatResponse) \<times> ConversationContext" where
  "try_body S T request sid conversation self_context =
     (case read_message S request of
        Inl e \<Rightarrow> (Inl e, conversation)
      | Inr (detected_lang, english_message, intnt, ents) \<Rightarrow>
          (let conversation = update_entities (clk_entities T) ents conversation;
               conversation = add_intent intnt conversation;
               conversation = add_user_message (clk_user_stamp T) (clk_user_now T)
                                (req_message request) (Some detected_lang) conversation;
               self_context = store_object sid conversation self_context
           in case choose_response S detected_lang english_message intnt sid self_context of
                Inl e \<Rightarrow> (Inl e, conversation)
              | Inr chosen \<Rightarrow>
                  (case finish_response S request detected_lang intnt chosen of
                     Inl e \<Rightarrow> (Inl e, conversation)
                   | Inr (response_text, conf, sources, fallback_required,
                          suggested_questions) \<Rightarrow>
                       (let conversation =
                              add_assistant_message (clk_reply_stamp T) (clk_reply_now T)
                                response_text (Some detected_lang) sources (Some conf)
                                conversation
                        in case LanguageEnum_of detected_lang of
                             Inl e \<Rightarrow> (Inl e, conversation)
                           | Inr lang \<Rightarrow>
                               (new_ChatResponse response_text lang sid conf sources
                                  (Some suggested_questions) fallback_required (Some intnt),
                                conversation)))))"

text \<open>
  \<open>process_message\<close>. \<open>self_context\<close> is the store of the service. An exception of
  \<open>get_or_create_session\<close> is raised before the \<open>try\<close> statement and leaves the
  function; one of the body is caught by the \<open>except\<close> clause, which builds the error
  response. The result is the response, or the exception that leaves the function, and
  the store.
\<close>

definition process_message ::
  "services \<Rightarrow> clock \<Rightarrow> ChatRequest \<Rightarrow> ContextManager \<Rightarrow>
   (py_exception + ChatResponse) \<times> ContextManager" where
  "process_message S T request self_context =
     (let sid = str_or (req_session_id request) (generate_session_id S)
      in case get_or_create_session (clk_created T) (clk_updated T) (clk_cleanup T) sid
                (req_language request) self_context of
           (Inl e, self_context) \<Rightarrow> (Inl e, self_context)
         | (Inr conversation, self_context) \<Rightarrow>
             (case try_body S T request sid conversation self_context of
                (Inr response, conversation) \<Rightarrow>
                  (Inr response, store_object sid conversation self_context)
              | (Inl e, conversation) \<Rightarrow>
                  (case dict_item LANGUAGES (str ''en'') of
                     Inl key_error \<Rightarrow> (Inl key_error, store_object sid conversation self_context)
                   | Inr english \<Rightarrow>
                       (let error_message =
                              lang_error (dict_get LANGUAGES (lang_value (req_language request))
                                            english)
                        in (new_ChatResponse error_message (req_language request) sid 0 None
                              None True (Some (str ''error'')),
                            store_object sid conversation self_context)))))"

text \<open>
  An environment to run the pipeline on: the language detector finds English, the
  translation returns its text, there is no FAQ, and the document search raises.
\<close>

definition failing_search :: services where
  "failing_search =
     \<lparr>generate_session_id = str ''s1'',
      unicode_tables = ascii_unicode,
      capitalize = (\<lambda>s. s),
      detect_language =
        (\<lambda>text. Inr \<lparr>det_success = True, det_language = str ''en'', det_confidence = 9 / 10\<rparr>),
      translate_to_english = (\<lambda>text source_lang. Inr (text, source_lang)),
      translate_from_english = (\<lambda>text target_lang. Inr text),
      extract_entities = (\<lambda>text. Inr []),
      stored_faqs = (\<lambda>lang. []),
      rag_generate_answer = (\<lambda>query. Inl (RuntimeError (str ''no vector store''))),
      llm_generate_response = (\<lambda>prompt. Inr None)\<rparr>"

definition example_clock :: clock where
  "example_clock =
     \<lparr>clk_created = 0, clk_updated = 0, clk_cleanup = 0, clk_entities = 1,
      clk_user_stamp = 2, clk_user_now = 2, clk_reply_stamp = 3, clk_reply_now = 3\<rparr>"

definition example_request :: ChatRequest where
  "example_request =
     \<lparr>req_message = str ''What is the hostel fee?'', req_language = HINDI,
      req_session_id = None, req_user_id = None\<rparr>"



section \<open>Properties of intent detection\<close>

text \<open>The equations that run the intent model on a concrete text.\<close>

lemmas run_intent = str_def ascii_lower_def INTENT_KEYWORDS_def intent_priority_def
      dict_get_def keyword_matches_def sublist_code prefix_code

lemma first_keyword_in_iff: "first_keyword_in ks t \<longleftrightarrow> (\<exists>k\<in>set ks. sublist k t)"
  by (induction ks) auto

lemma score_intents_Nil_iff:
  "score_intents lower t tab = [] \<longleftrightarrow> (\<forall>(i, kws)\<in>set tab. keyword_matches lower t kws = [])"
proof (induction tab)
  case Nil
  show ?case by simp
next
  case (Cons p tab)
  obtain i kws where p: "p = (i, kws)" by (cases p)
  show ?case
    by (cases "keyword_matches lower t kws = []") (simp_all add: Cons.IH p Let_def)
qed

lemma keyword_matches_Nil_iff:
  "keyword_matches lower t kws = [] \<longleftrightarrow> \<not> list_ex (\<lambda>k. sublist (lower k) t) kws"
  by (auto simp: keyword_matches_def filter_empty_conv list_ex_iff)

lemma max_by_score_best:
  "\<forall>x\<in>set xs. fst (snd x) \<le> fst (snd best) \<Longrightarrow> max_by_score best xs = best"
  by (induction xs) auto

lemma score_intents_bound:
  assumes "\<forall>(i, kws)\<in>set tab. of_nat (length (keyword_matches lower t kws)) * (1 / of_nat (dict_get intent_priority i 2)) \<le> (b::rat)"
  shows "\<forall>x\<in>set (score_intents lower t tab). fst (snd x) \<le> b"
  using assms
proof (induction tab)
  case Nil
  show ?case by simp
next
  case (Cons p tab)
  obtain i kws where p: "p = (i, kws)" by (cases p)
  from Cons.prems have rest: "\<forall>x\<in>set (score_intents lower t tab). fst (snd x) \<le> b"
    by (intro Cons.IH) simp
  from Cons.prems have here: "of_nat (length (keyword_matches lower t kws)) * (1 / of_nat (dict_get intent_priority i 2)) \<le> b"
    by (simp add: p)
  show ?case
    using rest here by (cases "keyword_matches lower t kws = []") (simp_all add: p Let_def)
qed

lemma dict_get_head: "dict_get ((k, v) # d) k dflt = v"
  by (simp add: dict_get_def)

lemma greeting_first:
  "INTENT_KEYWORDS =
     (str ''greeting'', dict_get INTENT_KEYWORDS (str ''greeting'') []) # tl INTENT_KEYWORDS"
  by (simp add: INTENT_KEYWORDS_def dict_get_def)

lemma greeting_count: "length (dict_get INTENT_KEYWORDS (str ''greeting'') []) = 11"
  by (simp add: INTENT_KEYWORDS_def dict_get_def)

lemma greeting_priority: "dict_get intent_priority (str ''greeting'') 2 = 1"
  by (simp add: intent_priority_def dict_get_def)

lemma greeting_only_first:
  "\<forall>(i, kws)\<in>set (tl INTENT_KEYWORDS). i \<noteq> str ''greeting''"
  by (simp add: INTENT_KEYWORDS_def str_def)

text \<open>
  Claim C1, as amended. The claim gives confidence 1.0 to a text that holds one greeting
  keyword and nothing else. The code divides the winning score by the number of keywords
  of the winning intent, and the greeting intent has 11: for every non-empty text in
  which exactly one greeting keyword occurs and no other intent scores above 1,
  \<open>detect_intent\<close> returns the intent \<open>greeting\<close> with confidence 1/11 and that
  keyword as the matched keywords.
\<close>

theorem single_greeting_keyword:
  assumes nonempty: "text \<noteq> []"
    and one: "keyword_matches lower (lower text) (dict_get INTENT_KEYWORDS (str ''greeting'') []) = [k]"
    and others: "\<forall>(i, kws)\<in>set INTENT_KEYWORDS. i \<noteq> str ''greeting'' \<longrightarrow>
        of_nat (length (keyword_matches lower (lower text) kws)) *
          (1 / of_nat (dict_get intent_priority i 2)) \<le> (1::rat)"
  shows "intent (detect_intent lower text) = str ''greeting'' \<and>
         confidence (detect_intent lower text) = 1 / 11 \<and>
         matched_keywords (detect_intent lower text) = [k]"
proof -
  define G where "G = dict_get INTENT_KEYWORDS (str ''greeting'') []"
  define R where "R = score_intents lower (lower text) (tl INTENT_KEYWORDS)"
  have "set (tl INTENT_KEYWORDS) \<subseteq> set INTENT_KEYWORDS"
    by (subst (2) greeting_first) auto
  with others greeting_only_first
  have "\<forall>(i, kws)\<in>set (tl INTENT_KEYWORDS).
          of_nat (length (keyword_matches lower (lower text) kws)) *
            (1 / of_nat (dict_get intent_priority i 2)) \<le> (1::rat)"
    by blast
  then have R: "\<forall>x\<in>set R. fst (snd x) \<le> 1"
    unfolding R_def by (rule score_intents_bound)
  have "score_intents lower (lower text) INTENT_KEYWORDS =
          score_intents lower (lower text) ((str ''greeting'', G) # tl INTENT_KEYWORDS)"
    unfolding G_def by (subst greeting_first) simp
  also have "\<dots> = (str ''greeting'', 1, [k]) # R"
    using one by (simp add: G_def R_def greeting_priority)
  finally have scored:
    "score_intents lower (lower text) INTENT_KEYWORDS = (str ''greeting'', 1, [k]) # R" .
  have best: "max_by_score (str ''greeting'', 1, [k]) R = (str ''greeting'', 1, [k])"
    using R by (intro max_by_score_best) simp
  show ?thesis
    using nonempty
    by (simp add: detect_intent_def scored best greeting_count dict_get_head Let_def)
qed

theorem single_greeting_keyword_witness:
  "str ''Hello!'' \<noteq> [] \<and>
   keyword_matches ascii_lower (ascii_lower (str ''Hello!''))
     (dict_get INTENT_KEYWORDS (str ''greeting'') []) = [str ''hello''] \<and>
   intent (detect_intent ascii_lower (str ''Hello!'')) = str ''greeting'' \<and>
   confidence (detect_intent ascii_lower (str ''Hello!'')) = 1 / 11 \<and>
   matched_keywords (detect_intent ascii_lower (str ''Hello!'')) = [str ''hello'']"
proof -
  have a: "str ''Hello!'' \<noteq> []" by (simp add: str_def)
  have b: "keyword_matches ascii_lower (ascii_lower (str ''Hello!''))
     (dict_get INTENT_KEYWORDS (str ''greeting'') []) = [str ''hello'']"
    by (simp add: run_intent)
  have c: "\<forall>(i, kws)\<in>set INTENT_KEYWORDS. i \<noteq> str ''greeting'' \<longrightarrow>
        of_nat (length (keyword_matches ascii_lower (ascii_lower (str ''Hello!'')) kws)) *
          (1 / of_nat (dict_get intent_priority i 2)) \<le> (1::rat)"
    by (simp add: run_intent)
  show ?thesis using a b single_greeting_keyword [OF a b c] by simp
qed

text \<open>
  The claim C1 as stated fails on the text \<open>hello\<close>: one greeting keyword matches, no
  other intent matches, and the confidence is 1/11, not 1.
\<close>

theorem greeting_confidence_counterexample:
  "score_intents ascii_lower (ascii_lower (str ''hello'')) INTENT_KEYWORDS =
     [(str ''greeting'', 1, [str ''hello''])] \<and>
   intent (detect_intent ascii_lower (str ''hello'')) = str ''greeting'' \<and>
   confidence (detect_intent ascii_lower (str ''hello'')) = 1 / 11 \<and>
   confidence (detect_intent ascii_lower (str ''hello'')) \<noteq> 1"
proof -
  have s: "score_intents ascii_lower (ascii_lower (str ''hello'')) INTENT_KEYWORDS =
     [(str ''greeting'', 1, [str ''hello''])]"
    by (simp add: run_intent)
  have n: "str ''hello'' \<noteq> []" by (simp add: str_def)
  show ?thesis
    using n by (simp add: detect_intent_def s greeting_count dict_get_head Let_def)
qed

text \<open>
  Claim C10: on the empty text \<open>detect_intent\<close> returns the intent \<open>general\<close> with
  confidence 0 and no matched keywords, whatever \<open>str.lower\<close> does.
\<close>

theorem empty_text_general:
  "detect_intent lower [] =
     \<lparr>intent = str ''general'', confidence = 0, matched_keywords = [], all_matches = None\<rparr>"
  by (simp add: detect_intent_def)

text \<open>
  Claim C6, as amended: for every non-empty text in which no keyword of the intent table
  occurs, letter case ignored, \<open>detect_intent\<close> returns the intent \<open>general\<close> with
  confidence 1/2 and no matched keywords.
\<close>

theorem no_keyword_general:
  assumes "text \<noteq> []" and "\<not> keyword_occurs lower text"
  shows "detect_intent lower text =
     \<lparr>intent = str ''general'', confidence = 1 / 2, matched_keywords = [], all_matches = None\<rparr>"
proof -
  have "score_intents lower (lower text) INTENT_KEYWORDS = []"
    using assms(2) unfolding score_intents_Nil_iff keyword_matches_Nil_iff keyword_occurs_def
    by (auto simp: list_ex_iff)
  then show ?thesis using assms(1) by (simp add: detect_intent_def)
qed

theorem no_keyword_general_witness:
  "str ''xyz'' \<noteq> [] \<and> \<not> keyword_occurs ascii_lower (str ''xyz'') \<and>
   detect_intent ascii_lower (str ''xyz'') =
     \<lparr>intent = str ''general'', confidence = 1 / 2, matched_keywords = [], all_matches = None\<rparr>"
proof -
  have a: "str ''xyz'' \<noteq> []" by (simp add: str_def)
  have b: "\<not> keyword_occurs ascii_lower (str ''xyz'')"
    by (simp add: keyword_occurs_def run_intent)
  show ?thesis using a b no_keyword_general [OF a b] by simp
qed

text \<open>
  The claim C6 as stated fails on the empty text: no keyword occurs in it, and the
  confidence is 0, not 1/2.
\<close>

theorem no_keyword_empty_counterexample:
  "\<not> keyword_occurs ascii_lower [] \<and> confidence (detect_intent ascii_lower []) \<noteq> 1 / 2"
  by (simp add: keyword_occurs_def detect_intent_def run_intent)

text \<open>
  Claim C7: \<open>needs_human_fallback\<close> returns true exactly when one of the fixed phrases
  occurs in the lower-cased text or the confidence is below 0.3; a text in which
  \<open>speak to someone\<close> occurs gives true at every confidence.
\<close>

theorem needs_human_fallback_iff:
  "(needs_human_fallback lower text conf \<longleftrightarrow>
      (\<exists>k\<in>set human_required_keywords. sublist k (lower text)) \<or> conf < 3 / 10) \<and>
   (sublist (str ''speak to someone'') (lower text) \<longrightarrow> needs_human_fallback lower text conf)"
proof -
  have "str ''speak to someone'' \<in> set human_required_keywords"
    by (simp add: human_required_keywords_def)
  then show ?thesis
    by (auto simp: needs_human_fallback_def first_keyword_in_iff)
qed

theorem needs_human_fallback_iff_witness:
  "sublist (str ''speak to someone'') (ascii_lower (str ''Can I Speak To Someone?'')) \<and>
   needs_human_fallback ascii_lower (str ''Can I Speak To Someone?'') (9 / 10)"
proof -
  have a: "sublist (str ''speak to someone'') (ascii_lower (str ''Can I Speak To Someone?''))"
    by (simp add: str_def ascii_lower_def sublist_code prefix_code)
  show ?thesis
    using a needs_human_fallback_iff [of ascii_lower "str ''Can I Speak To Someone?''" "9 / 10"]
    by blast
qed

section \<open>Properties of the conversation context\<close>

lemma length_slice_from_neg:
  "0 < n \<Longrightarrow> int (length (slice_from (- n) xs)) \<le> n"
  by (auto simp: slice_from_def)

lemma add_message_fields:
  "max_messages (add_message t1 t2 r c l m self) = max_messages self"
  "created_at (add_message t1 t2 r c l m self) = created_at self"
  "updated_at (add_message t1 t2 r c l m self) = t2"
  "intent_history (add_message t1 t2 r c l m self) = intent_history self"
  by (simp_all add: add_message_def Let_def)

lemma add_message_bound:
  "1 \<le> max_messages self \<Longrightarrow>
   int (length (messages (add_message t1 t2 r c l m self))) \<le> max_messages self"
  by (auto simp: add_message_def Let_def slice_from_def)

lemma add_intent_fields:
  "max_messages (add_intent i self) = max_messages self"
  "created_at (add_intent i self) = created_at self"
  "updated_at (add_intent i self) = updated_at self"
  "messages (add_intent i self) = messages self"
  by (simp_all add: add_intent_def Let_def)

lemma add_intent_bound: "length (intent_history (add_intent i self)) \<le> 5"
  by (auto simp: add_intent_def Let_def slice_from_def)

lemma update_entities_fields:
  "max_messages (update_entities t e self) = max_messages self"
  "created_at (update_entities t e self) = created_at self"
  "updated_at (update_entities t e self) = t"
  "messages (update_entities t e self) = messages self"
  "intent_history (update_entities t e self) = intent_history self"
  by (simp_all add: update_entities_def Let_def)

lemma apply_op_keeps:
  "max_messages (apply_op c self) = max_messages self"
  "created_at (apply_op c self) = created_at self"
  by (cases c; simp add: add_message_fields add_intent_fields update_entities_fields
        add_user_message_def add_assistant_message_def Let_def)+

lemma apply_op_invariant:
  assumes "context_invariant self" and "1 \<le> max_messages self"
    and "\<forall>t. op_clock c = Some t \<longrightarrow> created_at self \<le> t"
  shows "context_invariant (apply_op c self)"
proof (cases c)
  case (AddMessage t1 t2 r ct l m)
  then show ?thesis using assms
    by (simp add: context_invariant_def add_message_fields add_message_bound)
next
  case (AddUserMessage t1 t2 ct l)
  then show ?thesis using assms
    by (simp add: context_invariant_def add_user_message_def add_message_fields add_message_bound)
next
  case (AddAssistantMessage t1 t2 ct l s cf)
  then show ?thesis using assms
    by (simp add: context_invariant_def add_assistant_message_def Let_def add_message_fields
        add_message_bound)
next
  case (UpdateEntities t e)
  then show ?thesis using assms
    by (simp add: context_invariant_def update_entities_fields)
next
  case (AddIntent i)
  then show ?thesis using assms
    by (simp add: context_invariant_def add_intent_fields add_intent_bound)
qed

lemma apply_ops_invariant:
  assumes "context_invariant self" and "1 \<le> max_messages self"
    and "\<forall>c\<in>set cs. \<forall>t. op_clock c = Some t \<longrightarrow> created_at self \<le> t"
  shows "context_invariant (apply_ops cs self)"
  using assms
proof (induction cs arbitrary: self)
  case Nil
  then show ?case by simp
next
  case (Cons c cs)
  have "context_invariant (apply_op c self)"
    using Cons.prems by (intro apply_op_invariant) simp_all
  then show ?case
    using Cons.prems by (simp add: Cons.IH apply_op_keeps)
qed

lemma apply_ops_append: "apply_ops (xs @ ys) self = apply_ops ys (apply_ops xs self)"
  by (induction xs arbitrary: self) simp_all

text \<open>
  Claim C9: for every context that the constructor makes and every sequence of
  \<open>add_message\<close>, \<open>add_user_message\<close>, \<open>add_assistant_message\<close>, \<open>update_entities\<close>
  and \<open>add_intent\<close>, the invariants \<open>len(messages) <= max_messages\<close>,
  \<open>len(intent_history) <= 5\<close> and \<open>updated_at >= created_at\<close> hold after each
  operation. The constructor is called with \<open>max_messages\<close> at least 1 (every call of
  the program leaves the default, 10), and the clock does not go back: no reading is
  before the one that the constructor stored in \<open>created_at\<close>.
\<close>

theorem context_invariant_after_operations:
  assumes "1 \<le> maxm" and "t_created \<le> t_updated"
    and "\<forall>c\<in>set cs. \<forall>t. op_clock c = Some t \<longrightarrow> t_created \<le> t"
  shows "\<forall>n\<le>length cs.
           context_invariant (apply_ops (take n cs) (new_context t_created t_updated sid lang maxm))"
proof (intro allI impI)
  fix n
  have "\<forall>c\<in>set (take n cs). \<forall>t. op_clock c = Some t \<longrightarrow> t_created \<le> t"
    using assms(3) by (meson in_set_takeD)
  then show "context_invariant (apply_ops (take n cs) (new_context t_created t_updated sid lang maxm))"
    using assms(1,2)
    by (intro apply_ops_invariant) (simp_all add: new_context_def context_invariant_def)
qed

text \<open>
  A context with the default \<open>max_messages\<close>, an intent, eleven messages of the user
  and an entity: the invariant holds, and the ten last messages are kept.
\<close>

theorem context_invariant_after_operations_witness:
  "context_invariant (apply_ops eleven_questions (new_context 3 4 (str ''s1'') ENGLISH 10)) \<and>
   map msg_timestamp
     (messages (apply_ops eleven_questions (new_context 3 4 (str ''s1'') ENGLISH 10))) =
     [6, 7, 8, 9, 10, 11, 12, 13, 14, 15] \<and>
   updated_at (apply_ops eleven_questions (new_context 3 4 (str ''s1'') ENGLISH 10)) = 16"
proof -
  have "\<forall>n\<le>length eleven_questions.
          context_invariant
           (apply_ops (take n eleven_questions) (new_context 3 4 (str ''s1'') ENGLISH 10))"
    by (rule context_invariant_after_operations) (simp_all add: eleven_questions_def)
  from this [rule_format, of 13]
  have a: "context_invariant
             (apply_ops eleven_questions (new_context 3 4 (str ''s1'') ENGLISH 10))"
    by (simp add: eleven_questions_def)
  have b: "map msg_timestamp
     (messages (apply_ops eleven_questions (new_context 3 4 (str ''s1'') ENGLISH 10))) =
     [6, 7, 8, 9, 10, 11, 12, 13, 14, 15]"
    by (simp add: eleven_questions_def add_user_message_def add_message_def add_intent_def
        update_entities_def new_context_def Let_def slice_from_def)
  have c: "updated_at (apply_ops eleven_questions (new_context 3 4 (str ''s1'') ENGLISH 10)) = 16"
    by (simp add: eleven_questions_def add_user_message_def add_message_def add_intent_def
        update_entities_def new_context_def Let_def slice_from_def)
  from a b c show ?thesis by blast
qed

text \<open>
  Claim C2 says that \<open>add_user_message\<close>, \<open>add_assistant_message\<close>,
  \<open>update_entities\<close> and \<open>add_intent\<close> each set \<open>updated_at\<close> to the current time.
  The first three do (lemma \<open>sets_updated_at\<close> below). \<open>add_intent\<close> reads no clock
  and leaves \<open>updated_at\<close> as it was: on a context created at time 0 it is still 0
  after \<open>add_intent\<close>, whenever the call is made.
\<close>

theorem add_intent_keeps_updated_at:
  "updated_at (add_intent (str ''fee_query'') (new_context 0 0 (str ''s1'') ENGLISH 10)) = 0 \<and>
   updated_at (add_intent intnt self) = updated_at self"
  by (simp add: add_intent_fields new_context_def)

lemma sets_updated_at:
  "updated_at (add_user_message t1 t2 content lang self) = t2"
  "updated_at (add_assistant_message t1 t2 content lang sources conf self) = t2"
  "updated_at (update_entities t2 new_entities self) = t2"
  by (simp_all add: add_user_message_def add_assistant_message_def Let_def add_message_fields
      update_entities_fields)

section \<open>Properties of the context store\<close>

lemma evict_excess_within: "int (length ss) \<le> maxs \<Longrightarrow> evict_excess maxs ss = (Inr (), ss)"
  by (subst evict_excess.simps) simp

lemma delete_head_distinct:
  "distinct (map fst ((k, v) # rest)) \<Longrightarrow> AList.delete k ((k, v) # rest) = rest"
  by simp

lemma evict_excess_one:
  assumes "distinct (map fst (p # rest))" and "int (length rest) \<le> maxs"
    and "int (length (p # rest)) > maxs"
  shows "evict_excess maxs (p # rest) = (Inr (), rest)"
proof -
  obtain k v where p: "p = (k, v)" by (cases p)
  have "AList.delete k (p # rest) = rest"
    using assms(1) unfolding p by (rule delete_head_distinct)
  then have "evict_excess maxs (p # rest) = evict_excess maxs rest"
    using assms(3) by (subst evict_excess.simps) (simp add: p)
  then show ?thesis using assms(2) by (simp add: evict_excess_within)
qed

lemma evict_excess_keys: "fst ` set (snd (evict_excess maxs ss)) \<subseteq> fst ` set ss"
proof (induction maxs ss rule: evict_excess.induct)
  case (1 maxs ss)
  show ?case
  proof (cases "int (length ss) > maxs")
    case False
    then show ?thesis by (subst evict_excess.simps) simp
  next
    case True
    show ?thesis
    proof (cases ss)
      case Nil
      then show ?thesis by (subst evict_excess.simps) simp
    next
      case (Cons p rest)
      obtain k v where p: "p = (k, v)" by (cases p)
      have "fst ` set (snd (evict_excess maxs (AList.delete k ss))) \<subseteq> fst ` set (AList.delete k ss)"
        using "1.IH" [OF True Cons p [symmetric]] p by simp
      also have "\<dots> \<subseteq> fst ` set ss" by (rule dom_delete_subset)
      finally show ?thesis
        using True Cons p by (subst evict_excess.simps) simp
    qed
  qed
qed

lemma cleanup_old_sessions_sessions:
  "sessions (snd (cleanup_old_sessions now self)) =
     snd (evict_excess (max_sessions self)
            (foldl (\<lambda>d sid. AList.delete sid d) (sessions self)
               (map fst (filter (\<lambda>(sid, ctx). now - updated_at ctx > session_timeout self)
                           (sessions self)))))"
  by (simp add: cleanup_old_sessions_def Let_def split: prod.splits)

lemma get_or_create_session_fresh:
  assumes "map_of (sessions self) sid = None"
  shows "snd (get_or_create_session t_created t_updated t_now sid lang self) =
     snd (cleanup_old_sessions t_now
       (self\<lparr>sessions := AList.update sid (new_context t_created t_updated sid lang 10)
                               (sessions self)\<rparr>))"
  using assms
  by (simp add: get_or_create_session_def Let_def split: prod.splits sum.splits)

lemma update_fresh: "k \<notin> fst ` set al \<Longrightarrow> AList.update k v al = al @ [(k, v)]"
  by (induction al) auto

lemma foldl_delete_removes:
  "k \<in> set ks \<Longrightarrow> k \<notin> fst ` set (foldl (\<lambda>d sid. AList.delete sid d) d ks)"
proof (induction ks arbitrary: d)
  case Nil
  then show ?case by simp
next
  case (Cons a ks)
  have sub: "fst ` set (foldl (\<lambda>d sid. AList.delete sid d) d' ks) \<subseteq> fst ` set d'" for d'
  proof (induction ks arbitrary: d')
    case Nil
    show ?case by simp
  next
    case (Cons b ks)
    have "fst ` set (foldl (\<lambda>d sid. AList.delete sid d) (AList.delete b d') ks)
            \<subseteq> fst ` set (AList.delete b d')" by (rule Cons.IH)
    also have "\<dots> \<subseteq> fst ` set d'" by (rule dom_delete_subset)
    finally show ?case by simp
  qed
  show ?case
  proof (cases "k = a")
    case True
    have "k \<notin> fst ` set (AList.delete k d)" by (rule delete_notin_dom)
    with sub [of "AList.delete k d"] show ?thesis using True by auto
  next
    case False
    with Cons.prems have "k \<in> set ks" by simp
    then show ?thesis using Cons.IH by simp
  qed
qed

text \<open>
  Claim C5, as amended: for every session whose \<open>updated_at\<close> is older than the
  current time minus the idle timeout, the next call of \<open>get_or_create_session\<close> for
  a session id that the store does not hold (a call that creates a session) removes
  the idle session, so that \<open>get_session\<close> returns \<open>None\<close> for it, whatever the
  session count and the ceiling are.
\<close>

theorem idle_session_evicted_on_creation:
  assumes idle: "get_session sid0 self = Some ctx0"
    and old: "t_now - updated_at ctx0 > session_timeout self"
    and fresh: "get_session sid self = None"
  shows "get_session sid0
           (snd (get_or_create_session t_created t_updated t_now sid lang self)) = None"
proof -
  define fresh_ctx where "fresh_ctx = new_context t_created t_updated sid lang 10"
  define s1 where "s1 = AList.update sid fresh_ctx (sessions self)"
  define expired where
    "expired = map fst (filter (\<lambda>(sid, ctx). t_now - updated_at ctx > session_timeout self) s1)"
  define s2 where "s2 = foldl (\<lambda>d sid. AList.delete sid d) s1 expired"
  have ne: "sid0 \<noteq> sid" using idle fresh by auto
  have "map_of s1 sid0 = Some ctx0"
    using idle ne by (simp add: s1_def update_conv' get_session_def)
  then have "(sid0, ctx0) \<in> set s1" by (rule map_of_SomeD)
  then have "sid0 \<in> set expired"
    using old by (force simp: expired_def)
  then have "sid0 \<notin> fst ` set s2"
    unfolding s2_def by (rule foldl_delete_removes)
  with evict_excess_keys [of "max_sessions self" s2]
  have gone: "sid0 \<notin> fst ` set (snd (evict_excess (max_sessions self) s2))" by blast
  have "sessions (snd (get_or_create_session t_created t_updated t_now sid lang self))
          = snd (evict_excess (max_sessions self) s2)"
    using fresh
    by (simp add: get_session_def get_or_create_session_fresh cleanup_old_sessions_sessions
        s2_def expired_def s1_def fresh_ctx_def)
  then show ?thesis
    using gone by (simp add: get_session_def map_of_eq_None_iff)
qed


lemma create_sessions_append:
  "create_sessions (xs @ ys) self =
     (case create_sessions xs self of
        (Inl e, self') \<Rightarrow> (Inl e, self')
      | (Inr u, self') \<Rightarrow> create_sessions ys self')"
  by (induction xs arbitrary: self) (auto split: prod.splits sum.splits)

lemma cleanup_nothing_expired:
  assumes "\<forall>(sid, ctx)\<in>set (sessions self). now - updated_at ctx \<le> session_timeout self"
  shows "cleanup_old_sessions now self =
     (fst (evict_excess (max_sessions self) (sessions self)),
      self\<lparr>sessions := snd (evict_excess (max_sessions self) (sessions self))\<rparr>)"
proof -
  have "filter (\<lambda>(sid, ctx). now - updated_at ctx > session_timeout self) (sessions self) = []"
    using assms by (auto simp: filter_empty_conv)
  then show ?thesis
    by (simp add: cleanup_old_sessions_def Let_def split: prod.splits)
qed

lemma get_or_create_session_step:
  fixes M0 :: ContextManager
  assumes m: "0 \<le> max_sessions M0"
    and dist: "distinct (map call_sid (xs @ [c]))"
    and live: "\<forall>a\<in>set (xs @ [c]). call_now c - call_updated a \<le> session_timeout M0"
  shows "get_or_create_session (call_created c) (call_updated c) (call_now c) (call_sid c)
           (call_lang c)
           (M0\<lparr>sessions := drop (length xs - nat (max_sessions M0)) (map created_entry xs)\<rparr>) =
         (Inr (snd (created_entry c)),
          M0\<lparr>sessions := drop (length (xs @ [c]) - nat (max_sessions M0))
                            (map created_entry (xs @ [c]))\<rparr>)"
proof -
  define k where "k = length xs - nat (max_sessions M0)"
  define S where "S = drop k (map created_entry xs)"
  define M1 where "M1 = M0\<lparr>sessions := S\<rparr>"
  define e where "e = created_entry c"
  have keysS: "map fst S = drop k (map call_sid xs)"
    by (simp add: S_def drop_map created_entry_def o_def)
  have "call_sid c \<notin> set (map call_sid xs)" using dist by simp
  then have notin: "call_sid c \<notin> fst ` set S"
    using keysS by (metis in_set_dropD set_map)
  then have look: "map_of (sessions M1) (call_sid c) = None"
    by (simp add: M1_def map_of_eq_None_iff)
  have upd: "AList.update (call_sid c) (snd e) S = S @ [e]"
    using notin by (simp add: update_fresh e_def created_entry_def)
  define M2 where "M2 = M1\<lparr>sessions := S @ [e]\<rparr>"
  have fresh_all: "\<forall>(sid, ctx)\<in>set (S @ [e]). call_now c - updated_at ctx \<le> session_timeout M2"
  proof (intro ballI)
    fix p
    assume p: "p \<in> set (S @ [e])"
    have "set (S @ [e]) \<subseteq> created_entry ` set (xs @ [c])"
      by (auto simp: S_def e_def dest: in_set_dropD)
    with p obtain a where a: "a \<in> set (xs @ [c])" and pa: "p = created_entry a"
      by blast
    from live a have "call_now c - call_updated a \<le> session_timeout M0" by blast
    then show "case p of (sid, ctx) \<Rightarrow> call_now c - updated_at ctx \<le> session_timeout M2"
      by (simp add: pa created_entry_def new_context_def M2_def M1_def)
  qed
  have distS: "distinct (map fst (S @ [e]))"
  proof -
    have "map fst (S @ [e]) = drop k (map call_sid (xs @ [c]))"
      by (simp add: keysS e_def created_entry_def k_def)
    then show ?thesis using dist by (simp del: map_append)
  qed
  have ev: "evict_excess (max_sessions M0) (S @ [e]) =
              (Inr (), drop (length (xs @ [c]) - nat (max_sessions M0))
                         (map created_entry (xs @ [c])))"
  proof (cases "length xs < nat (max_sessions M0)")
    case True
    then have "k = 0" by (simp add: k_def)
    then have "S @ [e] = map created_entry (xs @ [c])" by (simp add: S_def e_def)
    moreover have "int (length (S @ [e])) \<le> max_sessions M0"
      using True \<open>k = 0\<close> by (simp add: S_def)
    ultimately show ?thesis using True by (simp add: evict_excess_within)
  next
    case False
    then have len: "length S = nat (max_sessions M0)" by (simp add: S_def k_def)
    obtain p rest where pr: "S @ [e] = p # rest" by (cases "S @ [e]") auto
    have lr: "length rest = nat (max_sessions M0)"
      using len pr by (metis length_append_singleton length_Cons nat.inject)
    have "evict_excess (max_sessions M0) (p # rest) = (Inr (), rest)"
      using distS m lr unfolding pr by (intro evict_excess_one) simp_all
    moreover have "rest = drop (length (xs @ [c]) - nat (max_sessions M0))
                            (map created_entry (xs @ [c]))"
    proof -
      have "length (xs @ [c]) - nat (max_sessions M0) = Suc k"
        using False by (simp add: k_def)
      moreover have "drop (Suc k) (map created_entry (xs @ [c])) = tl (S @ [e])"
        by (simp add: S_def e_def drop_Suc tl_drop [symmetric] k_def del: map_append)
           (simp add: k_def)
      ultimately show ?thesis using pr by simp
    qed
    ultimately show ?thesis using pr by simp
  qed
  have "cleanup_old_sessions (call_now c) M2 =
          (Inr (), M2\<lparr>sessions := drop (length (xs @ [c]) - nat (max_sessions M0))
                         (map created_entry (xs @ [c]))\<rparr>)"
    using fresh_all ev by (subst cleanup_nothing_expired) (simp_all add: M2_def M1_def)
  then show ?thesis
    using look upd
    by (simp add: get_or_create_session_def Let_def M2_def M1_def S_def k_def e_def
        created_entry_def)
qed


lemma create_sessions_fifo:
  fixes M0 :: ContextManager
  assumes m: "0 \<le> max_sessions M0" and empty: "sessions M0 = []"
    and dist: "distinct (map call_sid calls)"
    and live: "\<forall>a\<in>set calls. \<forall>c\<in>set calls. call_now c - call_updated a \<le> session_timeout M0"
  shows "create_sessions calls M0 =
           (Inr (), M0\<lparr>sessions := drop (length calls - nat (max_sessions M0))
                                     (map created_entry calls)\<rparr>)"
  using dist live
proof (induction calls rule: rev_induct)
  case Nil
  show ?case using empty by simp
next
  case (snoc c xs)
  have IH: "create_sessions xs M0 =
              (Inr (), M0\<lparr>sessions := drop (length xs - nat (max_sessions M0))
                                        (map created_entry xs)\<rparr>)"
    using snoc.prems by (intro snoc.IH) auto
  have step: "get_or_create_session (call_created c) (call_updated c) (call_now c) (call_sid c)
           (call_lang c)
           (M0\<lparr>sessions := drop (length xs - nat (max_sessions M0)) (map created_entry xs)\<rparr>) =
         (Inr (snd (created_entry c)),
          M0\<lparr>sessions := drop (length (xs @ [c]) - nat (max_sessions M0))
                            (map created_entry (xs @ [c]))\<rparr>)"
    using m snoc.prems by (intro get_or_create_session_step) auto
  show ?case
    by (simp only: create_sessions_append IH prod.case sum.case create_sessions.simps step)
qed

text \<open>
  Claim C4: from the empty store with ceiling 1000, \<open>get_or_create_session\<close> is called
  for 1001 distinct session ids, with no clock reading of a cleanup more than the idle
  timeout after an \<open>updated_at\<close>. No call raises. After \<open>n\<close> of the calls the store
  holds the sessions that the last \<open>min n 1000\<close> of them created, each a new context,
  in the order of the calls: every call registers its session, and the session count
  is \<open>min n 1000\<close>, never more than 1000. After the 1001 calls \<open>get_session\<close> returns
  \<open>None\<close> for the first session id and the context created for every other one.
\<close>

theorem thousand_and_one_sessions:
  assumes len: "length calls = 1001"
    and dist: "distinct (map call_sid calls)"
    and live: "\<forall>a\<in>set calls. \<forall>c\<in>set calls.
                 call_now c - call_updated a \<le> session_timeout (new_manager 1000 tmo)"
  shows "(\<forall>n\<le>length calls.
            fst (create_sessions (take n calls) (new_manager 1000 tmo)) = Inr () \<and>
            sessions (snd (create_sessions (take n calls) (new_manager 1000 tmo))) =
              drop (n - 1000) (map created_entry (take n calls)) \<and>
            get_session_count (snd (create_sessions (take n calls) (new_manager 1000 tmo)))
              = min n 1000 \<and>
            get_session_count (snd (create_sessions (take n calls) (new_manager 1000 tmo)))
              \<le> 1000) \<and>
         get_session (call_sid (hd calls))
           (snd (create_sessions calls (new_manager 1000 tmo))) = None \<and>
         (\<forall>c\<in>set (tl calls).
            get_session (call_sid c) (snd (create_sessions calls (new_manager 1000 tmo))) =
              Some (new_context (call_created c) (call_updated c) (call_sid c) (call_lang c) 10))"
proof -
  have ceiling: "max_sessions (new_manager 1000 tmo) = 1000" by (simp add: new_manager_def)
  have each: "fst (create_sessions (take n calls) (new_manager 1000 tmo)) = Inr () \<and>
            sessions (snd (create_sessions (take n calls) (new_manager 1000 tmo))) =
              drop (n - 1000) (map created_entry (take n calls)) \<and>
            get_session_count (snd (create_sessions (take n calls) (new_manager 1000 tmo)))
              = min n 1000 \<and>
            get_session_count (snd (create_sessions (take n calls) (new_manager 1000 tmo)))
              \<le> 1000"
    if n: "n \<le> length calls" for n
  proof -
    have d: "distinct (map call_sid (take n calls))"
      using dist by (simp add: take_map [symmetric] del: take_map)
    have l: "\<forall>a\<in>set (take n calls). \<forall>c\<in>set (take n calls).
               call_now c - call_updated a \<le> session_timeout (new_manager 1000 tmo)"
      using live by (meson in_set_takeD)
    have "create_sessions (take n calls) (new_manager 1000 tmo) =
             (Inr (), (new_manager 1000 tmo)\<lparr>sessions :=
                drop (length (take n calls) - nat (max_sessions (new_manager 1000 tmo)))
                  (map created_entry (take n calls))\<rparr>)"
      using d l by (intro create_sessions_fifo) (simp_all add: new_manager_def)
    moreover have "length (take n calls) - nat (max_sessions (new_manager 1000 tmo)) = n - 1000"
      using n by (simp add: ceiling)
    ultimately have run: "create_sessions (take n calls) (new_manager 1000 tmo) =
             (Inr (), (new_manager 1000 tmo)\<lparr>sessions :=
                drop (n - 1000) (map created_entry (take n calls))\<rparr>)"
      by simp
    show ?thesis using n by (auto simp: run get_session_count_def)
  qed
  have "sessions (snd (create_sessions (take (length calls) calls) (new_manager 1000 tmo))) =
          drop (length calls - 1000) (map created_entry (take (length calls) calls))"
    using each [of "length calls"] by simp
  then have "sessions (snd (create_sessions calls (new_manager 1000 tmo))) =
               drop 1 (map created_entry calls)"
    by (simp add: len)
  moreover obtain c0 rest where calls: "calls = c0 # rest"
    using len by (cases calls) auto
  ultimately have ss: "sessions (snd (create_sessions calls (new_manager 1000 tmo))) =
                   map created_entry rest"
    by simp
  have keys: "map fst (map created_entry rest) = map call_sid rest"
    by (simp add: created_entry_def o_def)
  have "call_sid c0 \<notin> set (map call_sid rest)"
    using dist by (simp add: calls)
  then have "call_sid c0 \<notin> fst ` set (map created_entry rest)"
    using keys by (metis set_map)
  then have "map_of (map created_entry rest) (call_sid c0) = None"
    by (simp only: map_of_eq_None_iff) simp
  moreover have "hd calls = c0" by (simp add: calls)
  ultimately have first: "get_session (call_sid (hd calls))
           (snd (create_sessions calls (new_manager 1000 tmo))) = None"
    by (simp only: get_session_def ss)
  have others: "get_session (call_sid c) (snd (create_sessions calls (new_manager 1000 tmo))) =
              Some (new_context (call_created c) (call_updated c) (call_sid c) (call_lang c) 10)"
    if c: "c \<in> set (tl calls)" for c
  proof -
    have "distinct (map fst (map created_entry rest))"
      using dist by (simp only: keys) (simp add: calls)
    moreover have "created_entry c \<in> set (map created_entry rest)"
      using c by (simp add: calls)
    then have "(call_sid c, new_context (call_created c) (call_updated c) (call_sid c)
                  (call_lang c) 10) \<in> set (map created_entry rest)"
      by (simp only: created_entry_def)
    ultimately have "map_of (map created_entry rest) (call_sid c) =
        Some (new_context (call_created c) (call_updated c) (call_sid c) (call_lang c) 10)"
      by (rule map_of_is_SomeI)
    then show ?thesis by (simp add: get_session_def ss)
  qed
  from each first others show ?thesis by blast
qed

text \<open>
  1001 calls with the session ids \<open>[0]\<close> to \<open>[1000]\<close>: the count is 1000 at the end,
  the first session is gone, the second and the last are there.
\<close>

theorem thousand_and_one_sessions_witness:
  "fst (create_sessions
          (map (\<lambda>i. \<lparr>call_created = 0, call_updated = 0, call_now = 0,
                    call_sid = [i], call_lang = ENGLISH\<rparr>) [0..<1001])
          (new_manager 1000 30)) = Inr () \<and>
   get_session_count
     (snd (create_sessions
             (map (\<lambda>i. \<lparr>call_created = 0, call_updated = 0, call_now = 0,
                    call_sid = [i], call_lang = ENGLISH\<rparr>) [0..<1001])
             (new_manager 1000 30))) = 1000 \<and>
   get_session [0]
     (snd (create_sessions
             (map (\<lambda>i. \<lparr>call_created = 0, call_updated = 0, call_now = 0,
                    call_sid = [i], call_lang = ENGLISH\<rparr>) [0..<1001])
             (new_manager 1000 30))) = None \<and>
   get_session [1]
     (snd (create_sessions
             (map (\<lambda>i. \<lparr>call_created = 0, call_updated = 0, call_now = 0,
                    call_sid = [i], call_lang = ENGLISH\<rparr>) [0..<1001])
             (new_manager 1000 30))) = Some (new_context 0 0 [1] ENGLISH 10) \<and>
   get_session [1000]
     (snd (create_sessions
             (map (\<lambda>i. \<lparr>call_created = 0, call_updated = 0, call_now = 0,
                    call_sid = [i], call_lang = ENGLISH\<rparr>) [0..<1001])
             (new_manager 1000 30))) = Some (new_context 0 0 [1000] ENGLISH 10)"
proof -
  let ?call = "\<lambda>i. \<lparr>call_created = 0, call_updated = 0, call_now = 0,
                    call_sid = [i], call_lang = ENGLISH\<rparr>"
  let ?calls = "map ?call [0..<1001]"
  let ?final = "snd (create_sessions ?calls (new_manager 1000 30))"
  have len: "length ?calls = 1001"
    by simp
  have dist: "distinct (map call_sid ?calls)"
    by (simp add: distinct_map o_def inj_on_def)
  have live: "\<forall>a\<in>set ?calls. \<forall>c\<in>set ?calls.
                call_now c - call_updated a \<le> session_timeout (new_manager 1000 30)"
    by (auto simp: new_manager_def)
  note all = thousand_and_one_sessions [OF len dist live]
  from all have each: "\<forall>n\<le>length ?calls.
      fst (create_sessions (take n ?calls) (new_manager 1000 30)) = Inr () \<and>
      sessions (snd (create_sessions (take n ?calls) (new_manager 1000 30))) =
        drop (n - 1000) (map created_entry (take n ?calls)) \<and>
      get_session_count (snd (create_sessions (take n ?calls) (new_manager 1000 30)))
        = min n 1000 \<and>
      get_session_count (snd (create_sessions (take n ?calls) (new_manager 1000 30))) \<le> 1000"
    by (rule conjunct1)
  have "1001 \<le> length ?calls" by simp
  with each have "fst (create_sessions (take 1001 ?calls) (new_manager 1000 30)) = Inr () \<and>
      get_session_count (snd (create_sessions (take 1001 ?calls) (new_manager 1000 30)))
        = min 1001 1000"
    by blast
  moreover have "take 1001 ?calls = ?calls" by simp
  ultimately have a: "fst (create_sessions ?calls (new_manager 1000 30)) = Inr () \<and>
      get_session_count ?final = 1000"
    by (simp only:) simp
  from all have "get_session (call_sid (hd ?calls)) ?final = None"
    by blast
  moreover have "hd ?calls = ?call 0"
    by (simp add: hd_map hd_upt)
  ultimately have b: "get_session [0] ?final = None" by simp
  from all have rest: "\<forall>c\<in>set (tl ?calls). get_session (call_sid c) ?final =
      Some (new_context (call_created c) (call_updated c) (call_sid c) (call_lang c) 10)"
    by blast
  have tail: "tl ?calls = map ?call [1..<1001]"
    by (simp add: map_tl [symmetric] tl_upt)
  have "?call 1 \<in> set (tl ?calls)" and "?call 1000 \<in> set (tl ?calls)"
    unfolding tail by (simp_all add: image_iff)
  with rest have "get_session (call_sid (?call 1)) ?final =
      Some (new_context (call_created (?call 1)) (call_updated (?call 1)) (call_sid (?call 1))
              (call_lang (?call 1)) 10)"
    and "get_session (call_sid (?call 1000)) ?final =
      Some (new_context (call_created (?call 1000)) (call_updated (?call 1000))
              (call_sid (?call 1000)) (call_lang (?call 1000)) 10)"
    by blast+
  then have c: "get_session [1] ?final = Some (new_context 0 0 [1] ENGLISH 10)"
    and d: "get_session [1000] ?final = Some (new_context 0 0 [1000] ENGLISH 10)"
    by simp_all
  from a b c d show ?thesis by blast
qed

theorem idle_session_evicted_on_creation_witness:
  "get_session (str ''a'')
     (snd (get_or_create_session 2000000000 2000000000 2000000000 (str ''b'') ENGLISH
        ((new_manager 1000 30)\<lparr>sessions := [(str ''a'', new_context 0 0 (str ''a'') ENGLISH 10)]\<rparr>)))
   = None"
proof (rule idle_session_evicted_on_creation)
  show "get_session (str ''a'')
          ((new_manager 1000 30)\<lparr>sessions := [(str ''a'', new_context 0 0 (str ''a'') ENGLISH 10)]\<rparr>)
        = Some (new_context 0 0 (str ''a'') ENGLISH 10)"
    by (simp add: get_session_def)
  show "session_timeout
          ((new_manager 1000 30)\<lparr>sessions := [(str ''a'', new_context 0 0 (str ''a'') ENGLISH 10)]\<rparr>)
        < 2000000000 - updated_at (new_context 0 0 (str ''a'') ENGLISH 10)"
    by (simp add: new_manager_def new_context_def)
  show "get_session (str ''b'')
          ((new_manager 1000 30)\<lparr>sessions := [(str ''a'', new_context 0 0 (str ''a'') ENGLISH 10)]\<rparr>)
        = None"
    by (simp add: get_session_def str_def)
qed

text \<open>
  The claim C5 as stated, for any other session id, fails when the other session id
  is already in the store: the call only moves that session to the end and runs no
  cleanup. Here the session \<open>a\<close> has been idle for 2000 seconds with a timeout of
  1800 seconds, and is still there after \<open>get_or_create_session\<close> for \<open>b\<close>.
\<close>

theorem idle_session_kept_counterexample:
  "session_timeout (new_manager 1000 30)
     < 2000000000 - updated_at (new_context 0 0 (str ''a'') ENGLISH 10) \<and>
   str ''b'' \<noteq> str ''a'' \<and>
   get_session (str ''a'')
     (snd (get_or_create_session 2000000000 2000000000 2000000000 (str ''b'') ENGLISH
        ((new_manager 1000 30)\<lparr>sessions :=
            [(str ''a'', new_context 0 0 (str ''a'') ENGLISH 10),
             (str ''b'', new_context 0 0 (str ''b'') ENGLISH 10)]\<rparr>)))
   = Some (new_context 0 0 (str ''a'') ENGLISH 10)"
  by (simp add: get_session_def get_or_create_session_def new_manager_def new_context_def str_def)

section \<open>Properties of the FAQ search\<close>

subsection \<open>Running the floating-point arithmetic\<close>

lemma floor_rat_numeral: "\<lfloor>(numeral a :: rat) / numeral b\<rfloor> = numeral a div numeral b"
  using floor_divide_of_int_eq [where 'a = rat, of "numeral a" "numeral b"] by simp

lemma floor_rat_minus_numeral:
  "\<lfloor>- ((numeral a :: rat) / numeral b)\<rfloor> = - numeral a div numeral b"
  using floor_divide_of_int_eq [where 'a = rat, of "- numeral a" "numeral b"] by simp

lemma floor_rat_one_numeral: "\<lfloor>(1 :: rat) / numeral b\<rfloor> = 1 div numeral b"
  using floor_divide_of_int_eq [where 'a = rat, of 1 "numeral b"] by simp

lemma ceiling_rat_numeral: "\<lceil>(numeral a :: rat) / numeral b\<rceil> = - (- numeral a div numeral b)"
  using ceiling_divide_eq_div [where 'a = rat, of "numeral a" "numeral b"] by simp

lemmas run_float = round_binary64_def float_exponent_def round_half_even_def pow2_def
  bit_length.simps Let_def floor_rat_numeral floor_rat_minus_numeral floor_rat_one_numeral
  ceiling_rat_numeral

text \<open>
  The literals and results of the FAQ search that Python prints as \<open>0.1\<close>, \<open>0.2\<close>,
  \<open>0.4\<close>, \<open>0.6\<close> and \<open>0.6000000000000001\<close>; the largest \<open>int\<close> that converts,
  and the least that does not.
\<close>

lemma binary64_examples:
  "round_binary64 (1 / 10) = 3602879701896397 / 36028797018963968"
  "round_binary64 (1 / 5) = 3602879701896397 / 18014398509481984"
  "round_binary64 (4 * (3602879701896397 / 36028797018963968)) =
     3602879701896397 / 9007199254740992"
  "round_binary64 (3 / 5) = 5404319552844595 / 9007199254740992"
  "round_binary64 (3602879701896397 / 18014398509481984 + 3602879701896397 / 9007199254740992) =
     1351079888211149 / 2251799813685248"
  "round_binary64 (5404319552844595 / 9007199254740992) = 5404319552844595 / 9007199254740992"
  "round_binary64 0 = 0"
  "round_binary64 4 = 4"
  by (simp_all add: run_float)

lemma float_of_int_examples:
  "float_of_int 0 = Inr 0"
  "float_of_int 4 = Inr 4"
  "float_of_int (2 ^ 53 + 1) = Inr (2 ^ 53)"
  "float_of_int (2 ^ 1024 - 2 ^ 970 - 1) = Inr (2 ^ 1024 - 2 ^ 971)"
  "float_of_int (2 ^ 1024 - 2 ^ 970) = Inl OverflowError"
  by (simp_all add: float_of_int_def run_float)

subsection \<open>The loop and the sort\<close>

text \<open>
  When the loop raises nothing it returns one entry for each FAQ that the category
  filter keeps and that has a match, in the order of the FAQs.
\<close>

lemma score_faqs_Inr:
  "score_faqs U Q cat faqs = Inr D \<Longrightarrow>
   list_all2 (\<lambda>m f. faq_question f = Some (sf_question m) \<and>
                    faq_answer f = Some (sf_answer m) \<and>
                    sf_category m = opt_get (faq_category f) (str ''general'') \<and>
                    sf_matched_keywords m = Q \<inter> all_faq_keywords U f \<and>
                    final_score Q (Q \<inter> all_faq_keywords U f) f = Inr (sf_score m))
     D (filter (\<lambda>f. \<not> category_skips U cat f \<and> Q \<inter> all_faq_keywords U f \<noteq> {}) faqs)"
proof (induction faqs arbitrary: D)
  case Nil
  then show ?case by simp
next
  case (Cons f faqs)
  show ?case
  proof (cases "\<not> category_skips U cat f \<and> Q \<inter> all_faq_keywords U f \<noteq> {}")
    case False
    then have "score_faqs U Q cat (f # faqs) = score_faqs U Q cat faqs"
      by (auto simp: Let_def)
    with Cons show ?thesis using False by auto
  next
    case True
    with Cons.prems obtain q a sc D' where
      q: "faq_question f = Some q" and a: "faq_answer f = Some a"
      and sc: "final_score Q (Q \<inter> all_faq_keywords U f) f = Inr sc"
      and rest: "score_faqs U Q cat faqs = Inr D'"
      and D: "D = \<lparr>sf_question = q, sf_answer = a,
                   sf_category = opt_get (faq_category f) (str ''general''),
                   sf_score = sc,
                   sf_matched_keywords = Q \<inter> all_faq_keywords U f\<rparr> # D'"
      by (auto simp: Let_def split: option.splits sum.splits)
    from Cons.IH [OF rest] show ?thesis
      using True by (simp add: D q a sc)
  qed
qed

lemma score_faqs_no_match:
  "\<forall>f\<in>set faqs. Q \<inter> all_faq_keywords U f = {} \<Longrightarrow> score_faqs U Q cat faqs = Inr []"
  by (induction faqs) (simp_all add: Let_def)

lemma final_score_formula:
  assumes "finite Q" and "Q \<inter> K \<noteq> {}" and "final_score Q (Q \<inter> K) f = Inr s"
  shows "\<exists>priority. float_of_int (opt_get (faq_priority f) 0) = Inr priority \<and>
           s = min (round_binary64
                      (round_binary64 (of_nat (card (Q \<inter> K)) / of_nat (card Q)) +
                       round_binary64 (priority * round_binary64 (1 / 10)))) 1"
proof -
  have "Q \<noteq> {}" using assms(2) by auto
  with assms(1) have "0 < card Q" by (simp add: card_gt_0_iff)
  then have "max (card Q) 1 = card Q" by simp
  with assms(3) show ?thesis
    by (auto simp: final_score_def Let_def split: sum.splits)
qed

text \<open>The items that a filter keeps, by their positions in the list.\<close>

lemma filter_by_position:
  "filter P xs = map (nth xs) (filter (\<lambda>i. P (xs ! i)) [0..<length xs])"
proof -
  have "filter P (map (nth xs) [0..<length xs]) =
          map (nth xs) (filter (P \<circ> nth xs) [0..<length xs])"
    by (rule filter_map)
  then show ?thesis by (simp add: map_nth o_def)
qed

text \<open>
  The stable sort: a list in the order of the positions of its items comes out in the
  order of the keys, items of equal key in the order of their positions.
\<close>

lemma insort_key_then_position:
  fixes key :: "'a \<Rightarrow> 'k::linorder" and pos :: "'a \<Rightarrow> nat"
  assumes "sorted_wrt (\<lambda>a b. key a < key b \<or> (key a = key b \<and> pos a < pos b)) ys"
    and "\<forall>y\<in>set ys. pos x < pos y"
  shows "sorted_wrt (\<lambda>a b. key a < key b \<or> (key a = key b \<and> pos a < pos b))
           (insort_key key x ys)"
  using assms
proof (induction ys)
  case Nil
  then show ?case by simp
next
  case (Cons y ys)
  show ?case
  proof (cases "key x \<le> key y")
    case True
    have "key x < key z \<or> (key x = key z \<and> pos x < pos z)" if "z \<in> set (y # ys)" for z
    proof -
      have "key y \<le> key z" using Cons.prems(1) that by auto
      with True have "key x \<le> key z" by simp
      moreover have "pos x < pos z" using Cons.prems(2) that by auto
      ultimately show ?thesis by auto
    qed
    with True Cons.prems(1) show ?thesis by simp
  next
    case False
    have tail: "sorted_wrt (\<lambda>a b. key a < key b \<or> (key a = key b \<and> pos a < pos b))
                  (insort_key key x ys)"
      using Cons.prems by (intro Cons.IH) simp_all
    have "key y < key z \<or> (key y = key z \<and> pos y < pos z)"
      if "z \<in> set (insort_key key x ys)" for z
      using that False Cons.prems(1) by (auto simp: set_insort_key)
    with False tail show ?thesis by simp
  qed
qed

lemma sort_key_then_position:
  fixes key :: "'a \<Rightarrow> 'k::linorder" and pos :: "'a \<Rightarrow> nat"
  assumes "sorted_wrt (\<lambda>a b. pos a < pos b) xs"
  shows "sorted_wrt (\<lambda>a b. key a < key b \<or> (key a = key b \<and> pos a < pos b))
           (sort_key key xs)"
  using assms
proof (induction xs)
  case Nil
  then show ?case by simp
next
  case (Cons x xs)
  have "sorted_wrt (\<lambda>a b. key a < key b \<or> (key a = key b \<and> pos a < pos b))
          (insort_key key x (sort_key key xs))"
    using Cons by (intro insort_key_then_position) simp_all
  then show ?case by simp
qed

lemma map_insort_key:
  "map f (insort_key (\<lambda>x. k (f x)) x xs) = insort_key k (f x) (map f xs)"
  by (induction xs) simp_all

lemma map_sort_key: "map f (sort_key (\<lambda>x. k (f x)) xs) = sort_key k (map f xs)"
  by (induction xs) (simp_all add: map_insort_key)

lemma set_slice_to: "set (slice_to n xs) \<subseteq> set xs"
  by (auto simp: slice_to_def dest: in_set_takeD)

lemma sorted_wrt_slice_to: "sorted_wrt R xs \<Longrightarrow> sorted_wrt R (slice_to n xs)"
  by (simp add: slice_to_def sorted_wrt_take)

lemma slice_to_map: "slice_to n (map f xs) = map f (slice_to n xs)"
  by (simp add: slice_to_def take_map)

lemma sorted_by_score:
  "sorted_wrt (\<lambda>a b. sf_score b \<le> sf_score a) (sort_key (\<lambda>x. - sf_score x) D)"
proof -
  have "sorted (map (\<lambda>x. - sf_score x) (sort_key (\<lambda>x. - sf_score x) D))"
    by (rule sorted_sort_key)
  then show ?thesis by (simp add: sorted_map)
qed

lemma search_faqs_cases:
  "(search_faqs U faqs query category limit = \<lparr>res_matches = [], res_total = 0, res_error = None\<rparr> \<and> faqs = []) \<or>
   (\<exists>e. search_faqs U faqs query category limit = \<lparr>res_matches = [], res_total = 0, res_error = Some e\<rparr> \<and>
        score_faqs U (query_keyword_set U query) category faqs = Inl e) \<or>
   (\<exists>D. score_faqs U (query_keyword_set U query) category faqs = Inr D \<and>
        search_faqs U faqs query category limit =
          \<lparr>res_matches = slice_to limit (sort_key (\<lambda>x. - sf_score x) D),
           res_total = length D, res_error = None\<rparr>)"
proof (cases "faqs = []")
  case True
  then show ?thesis by (simp add: search_faqs_def)
next
  case False
  then show ?thesis
    by (cases "score_faqs U (query_keyword_set U query) category faqs")
       (simp_all add: search_faqs_def Let_def)
qed

text \<open>
  The entries that the loop returns, sorted, with the positions of their FAQs: each
  entry is made from the FAQ at its position, and the pairs are in descending order of
  score, pairs of equal score in ascending order of position.
\<close>

lemma sorted_entries_positions:
  assumes D: "score_faqs U Q cat faqs = Inr D"
  shows "\<exists>ps. map fst ps = sort_key (\<lambda>x. - sf_score x) D \<and>
           (\<forall>(m, i)\<in>set ps. i < length faqs \<and> \<not> category_skips U cat (faqs ! i) \<and>
              Q \<inter> all_faq_keywords U (faqs ! i) \<noteq> {} \<and>
              (\<lambda>f. faq_question f = Some (sf_question m) \<and>
                    faq_answer f = Some (sf_answer m) \<and>
                    sf_category m = opt_get (faq_category f) (str ''general'') \<and>
                    sf_matched_keywords m = Q \<inter> all_faq_keywords U f \<and>
                    final_score Q (Q \<inter> all_faq_keywords U f) f = Inr (sf_score m)) (faqs ! i)) \<and>
           sorted_wrt (\<lambda>(m, i) (m', j). sf_score m' < sf_score m \<or>
                         (sf_score m' = sf_score m \<and> i < j)) ps"
proof -
  define keep where
    "keep = (\<lambda>f. \<not> category_skips U cat f \<and> Q \<inter> all_faq_keywords U f \<noteq> {})"
  define E where "E = (\<lambda>(m :: scored_faq) f. faq_question f = Some (sf_question m) \<and>
                    faq_answer f = Some (sf_answer m) \<and>
                    sf_category m = opt_get (faq_category f) (str ''general'') \<and>
                    sf_matched_keywords m = Q \<inter> all_faq_keywords U f \<and>
                    final_score Q (Q \<inter> all_faq_keywords U f) f = Inr (sf_score m))"
  define ks where "ks = filter (\<lambda>i. keep (faqs ! i)) [0..<length faqs]"
  define zs where "zs = zip D ks"
  define ps where "ps = sort_key (\<lambda>p. - sf_score (fst p)) zs"
  have "list_all2 E D (filter keep faqs)"
    using score_faqs_Inr [OF D] by (simp add: E_def keep_def)
  moreover have "filter keep faqs = map (nth faqs) ks"
    unfolding ks_def by (rule filter_by_position)
  ultimately have rel: "list_all2 (\<lambda>m i. E m (faqs ! i)) D ks"
    by (simp add: list_all2_map2)
  then have len: "length D = length ks" by (rule list_all2_lengthD)
  have fst_zs: "map fst zs = D" and snd_zs: "map snd zs = ks"
    using len by (simp_all add: zs_def)
  have first: "map fst ps = sort_key (\<lambda>x. - sf_score x) D"
    unfolding ps_def using map_sort_key [of fst "\<lambda>x. - sf_score x" zs] by (simp add: fst_zs)
  have "set ps = set zs" by (simp add: ps_def)
  moreover have "E m (faqs ! i) \<and> i \<in> set ks" if "(m, i) \<in> set zs" for m i
    using that rel unfolding zs_def by (auto simp: list_all2_iff dest: set_zip_rightD)
  ultimately have second: "\<forall>(m, i)\<in>set ps. i < length faqs \<and>
      \<not> category_skips U cat (faqs ! i) \<and> Q \<inter> all_faq_keywords U (faqs ! i) \<noteq> {} \<and>
      E m (faqs ! i)"
    by (auto simp: ks_def keep_def)
  have "sorted_wrt (<) ks" by (simp add: ks_def sorted_wrt_filter)
  then have "sorted_wrt (\<lambda>a b. snd a < snd b) zs"
    by (simp add: sorted_wrt_map [symmetric] snd_zs)
  then have "sorted_wrt (\<lambda>a b. - sf_score (fst a) < - sf_score (fst b) \<or>
                (- sf_score (fst a) = - sf_score (fst b) \<and> snd a < snd b)) ps"
    unfolding ps_def by (rule sort_key_then_position)
  then have third: "sorted_wrt (\<lambda>(m, i) (m', j). sf_score m' < sf_score m \<or>
                         (sf_score m' = sf_score m \<and> i < j)) ps"
    by (rule sorted_wrt_mono_rel [rotated]) auto
  from first second third show ?thesis unfolding E_def by blast
qed

text \<open>
  Claim C8: the entries of the result of \<open>search_faqs\<close> come from FAQs at positions of
  the list of FAQs, one position for each entry. The FAQ at the position of an entry is
  kept by the category filter and its keywords (the declared ones, lower-cased, with
  those of its question) meet the keywords of the query, so an FAQ with an empty
  intersection has no entry. The score of the entry is the size of the intersection
  over the number of query keywords, plus the priority times 0.1, capped at 1, in the
  floating-point arithmetic of the program. The entries are in descending order of
  score, entries of equal score in the order of their FAQs in the list. When no FAQ
  meets the keywords of the query the result is \<open>{matches: [], total: 0}\<close>.
\<close>

theorem faq_search_ranking:
  "(\<exists>positions.
      list_all2
        (\<lambda>m i. i < length faqs \<and>
           \<not> category_skips U category (faqs ! i) \<and>
           query_keyword_set U query \<inter> all_faq_keywords U (faqs ! i) \<noteq> {} \<and>
           faq_question (faqs ! i) = Some (sf_question m) \<and>
           faq_answer (faqs ! i) = Some (sf_answer m) \<and>
           sf_category m = opt_get (faq_category (faqs ! i)) (str ''general'') \<and>
           sf_matched_keywords m =
             query_keyword_set U query \<inter> all_faq_keywords U (faqs ! i) \<and>
           (\<exists>priority.
              float_of_int (opt_get (faq_priority (faqs ! i)) 0) = Inr priority \<and>
              sf_score m =
                min (round_binary64
                       (round_binary64
                          (of_nat (card (query_keyword_set U query \<inter>
                                         all_faq_keywords U (faqs ! i))) /
                           of_nat (card (query_keyword_set U query))) +
                        round_binary64 (priority * round_binary64 (1 / 10)))) 1))
        (res_matches (search_faqs U faqs query category limit)) positions \<and>
      sorted_wrt (\<lambda>(m, i) (m', j). sf_score m' < sf_score m \<or>
                    (sf_score m' = sf_score m \<and> i < j))
        (zip (res_matches (search_faqs U faqs query category limit)) positions)) \<and>
   sorted_wrt (\<lambda>a b. sf_score b \<le> sf_score a)
     (res_matches (search_faqs U faqs query category limit)) \<and>
   ((\<forall>f\<in>set faqs. query_keyword_set U query \<inter> all_faq_keywords U f = {}) \<longrightarrow>
      search_faqs U faqs query category limit =
        \<lparr>res_matches = [], res_total = 0, res_error = None\<rparr>)"
proof -
  let ?Q = "query_keyword_set U query"
  let ?r = "search_faqs U faqs query category limit"
  let ?R = "\<lambda>m i. i < length faqs \<and>
           \<not> category_skips U category (faqs ! i) \<and>
           ?Q \<inter> all_faq_keywords U (faqs ! i) \<noteq> {} \<and>
           faq_question (faqs ! i) = Some (sf_question m) \<and>
           faq_answer (faqs ! i) = Some (sf_answer m) \<and>
           sf_category m = opt_get (faq_category (faqs ! i)) (str ''general'') \<and>
           sf_matched_keywords m = ?Q \<inter> all_faq_keywords U (faqs ! i) \<and>
           (\<exists>priority.
              float_of_int (opt_get (faq_priority (faqs ! i)) 0) = Inr priority \<and>
              sf_score m =
                min (round_binary64
                       (round_binary64
                          (of_nat (card (?Q \<inter> all_faq_keywords U (faqs ! i))) /
                           of_nat (card ?Q)) +
                        round_binary64 (priority * round_binary64 (1 / 10)))) 1)"
  let ?order = "\<lambda>(m, i) (m', j). sf_score m' < sf_score (m :: scored_faq) \<or>
                    (sf_score m' = sf_score m \<and> (i :: nat) < j)"
  have finQ: "finite ?Q" by (simp add: query_keyword_set_def)
  have part1: "\<exists>positions. list_all2 ?R (res_matches ?r) positions \<and>
                 sorted_wrt ?order (zip (res_matches ?r) positions)"
  proof (cases "res_matches ?r = []")
    case True
    then have "list_all2 ?R (res_matches ?r) [] \<and> sorted_wrt ?order (zip (res_matches ?r) [])"
      by simp
    then show ?thesis by blast
  next
    case False
    with search_faqs_cases [of U faqs query category limit]
    obtain D where D: "score_faqs U ?Q category faqs = Inr D"
      and r: "res_matches ?r = slice_to limit (sort_key (\<lambda>x. - sf_score x) D)"
      by auto
    from sorted_entries_positions [OF D] obtain ps where
      first: "map fst ps = sort_key (\<lambda>x. - sf_score x) D"
      and second: "\<forall>(m, i)\<in>set ps. i < length faqs \<and>
          \<not> category_skips U category (faqs ! i) \<and>
          ?Q \<inter> all_faq_keywords U (faqs ! i) \<noteq> {} \<and>
          faq_question (faqs ! i) = Some (sf_question m) \<and>
          faq_answer (faqs ! i) = Some (sf_answer m) \<and>
          sf_category m = opt_get (faq_category (faqs ! i)) (str ''general'') \<and>
          sf_matched_keywords m = ?Q \<inter> all_faq_keywords U (faqs ! i) \<and>
          final_score ?Q (?Q \<inter> all_faq_keywords U (faqs ! i)) (faqs ! i) = Inr (sf_score m)"
      and third: "sorted_wrt ?order ps"
      by blast
    define qs where "qs = slice_to limit ps"
    have matches: "res_matches ?r = map fst qs"
      by (simp add: r first [symmetric] slice_to_map qs_def)
    have pairs: "zip (res_matches ?r) (map snd qs) = qs"
      by (simp add: matches zip_map_fst_snd)
    have "?R (fst p) (snd p)" if "p \<in> set qs" for p
    proof -
      from that have "p \<in> set ps" using set_slice_to [of limit ps] by (auto simp: qs_def)
      with second have p: "snd p < length faqs \<and>
          \<not> category_skips U category (faqs ! snd p) \<and>
          ?Q \<inter> all_faq_keywords U (faqs ! snd p) \<noteq> {} \<and>
          faq_question (faqs ! snd p) = Some (sf_question (fst p)) \<and>
          faq_answer (faqs ! snd p) = Some (sf_answer (fst p)) \<and>
          sf_category (fst p) = opt_get (faq_category (faqs ! snd p)) (str ''general'') \<and>
          sf_matched_keywords (fst p) = ?Q \<inter> all_faq_keywords U (faqs ! snd p) \<and>
          final_score ?Q (?Q \<inter> all_faq_keywords U (faqs ! snd p)) (faqs ! snd p) =
            Inr (sf_score (fst p))"
        by (cases p) auto
      then have "?Q \<inter> all_faq_keywords U (faqs ! snd p) \<noteq> {}"
        and "final_score ?Q (?Q \<inter> all_faq_keywords U (faqs ! snd p)) (faqs ! snd p) =
               Inr (sf_score (fst p))"
        by simp_all
      from final_score_formula [OF finQ this] p show ?thesis by simp
    qed
    then have "list_all2 ?R (map fst qs) (map snd qs)"
      by (simp add: list_all2_map1 list_all2_map2 list_all2_same)
    moreover have "sorted_wrt ?order qs"
      unfolding qs_def using third by (rule sorted_wrt_slice_to)
    ultimately have "list_all2 ?R (res_matches ?r) (map snd qs) \<and>
        sorted_wrt ?order (zip (res_matches ?r) (map snd qs))"
      by (simp only: pairs) (simp add: matches)
    then show ?thesis by blast
  qed
  have part2: "sorted_wrt (\<lambda>a b. sf_score b \<le> sf_score a) (res_matches ?r)"
    using search_faqs_cases [of U faqs query category limit]
    by (auto simp: sorted_wrt_slice_to sorted_by_score)
  have part3: "?r = \<lparr>res_matches = [], res_total = 0, res_error = None\<rparr>"
    if "\<forall>f\<in>set faqs. ?Q \<inter> all_faq_keywords U f = {}"
  proof -
    from that have "score_faqs U ?Q category faqs = Inr []" by (rule score_faqs_no_match)
    then show ?thesis by (simp add: search_faqs_def Let_def slice_to_def)
  qed
  from part1 part2 part3 show ?thesis by blast
qed


subsection \<open>A search with two FAQs\<close>

lemmas run_faq = query_keyword_set_def extract_keywords_def ascii_unicode_def ascii_lower_def
  str_def stop_words_def Let_def all_faq_keywords_def opt_get_def hostel_faq_def mess_faq_def

lemma example_keywords:
  "query_keyword_set ascii_unicode (str ''library'') = {str ''library''}"
  "query_keyword_set ascii_unicode (str ''hostel room fee mess laundry'') =
     {str ''hostel'', str ''room'', str ''fee'', str ''mess'', str ''laundry''}"
  "all_faq_keywords ascii_unicode hostel_faq = {str ''hostel'', str ''room'', str ''fee''}"
  "all_faq_keywords ascii_unicode mess_faq = {str ''mess'', str ''open''}"
  by (simp_all add: run_faq insert_commute)

lemma example_found:
  "query_keyword_set ascii_unicode (str ''hostel room fee mess laundry'') \<inter>
     all_faq_keywords ascii_unicode hostel_faq = {str ''hostel'', str ''room'', str ''fee''}"
  "query_keyword_set ascii_unicode (str ''hostel room fee mess laundry'') \<inter>
     all_faq_keywords ascii_unicode mess_faq = {str ''mess''}"
  by (simp_all only: example_keywords) (auto simp: str_def)

lemma example_card:
  "card (query_keyword_set ascii_unicode (str ''hostel room fee mess laundry'')) = 5"
  "card {str ''hostel'', str ''room'', str ''fee''} = 3"
  "card {str ''mess''} = 1"
  by (simp_all only: example_keywords) (simp_all add: str_def)

lemma example_fields:
  "faq_question mess_faq = Some (str ''When is the mess open?'')"
  "faq_answer mess_faq = Some (str ''From 7 to 22.'')"
  "faq_category mess_faq = None"
  "faq_priority mess_faq = Some 4"
  "faq_question hostel_faq = Some (str ''What is the hostel fee?'')"
  "faq_answer hostel_faq = Some (str ''It is Rs. 5000.'')"
  "faq_category hostel_faq = Some (str ''hostel'')"
  "faq_priority hostel_faq = None"
  by (simp_all add: mess_faq_def hostel_faq_def)

text \<open>
  The scores that Python prints as \<open>0.6\<close> and \<open>0.6000000000000001\<close>: three keywords
  of five, and one keyword of five with priority 4. Without rounding both are 3/5.
\<close>

lemma example_final_score:
  "final_score (query_keyword_set ascii_unicode (str ''hostel room fee mess laundry''))
     {str ''hostel'', str ''room'', str ''fee''} hostel_faq =
     Inr (5404319552844595 / 9007199254740992)"
  "final_score (query_keyword_set ascii_unicode (str ''hostel room fee mess laundry''))
     {str ''mess''} mess_faq =
     Inr (1351079888211149 / 2251799813685248)"
proof -
  let ?Q = "query_keyword_set ascii_unicode (str ''hostel room fee mess laundry'')"
  have three: "(of_nat (card {str ''hostel'', str ''room'', str ''fee''}) :: rat) /
                 of_nat (max (card ?Q) 1) = 3 / 5"
    and one: "(of_nat (card {str ''mess''}) :: rat) / of_nat (max (card ?Q) 1) = 1 / 5"
    by (simp_all add: example_card)
  have none: "float_of_int (opt_get (faq_priority hostel_faq) 0) = Inr 0"
    and four: "float_of_int (opt_get (faq_priority mess_faq) 0) = Inr 4"
    by (simp_all add: example_fields opt_get_def float_of_int_examples)
  have no_boost: "round_binary64 (0 * round_binary64 (1 / 10)) = 0"
    by (simp add: binary64_examples)
  have boost: "round_binary64 (4 * round_binary64 (1 / 10)) =
                 3602879701896397 / 9007199254740992"
    by (simp only: binary64_examples)
  have plain: "round_binary64 (round_binary64 (3 / 5) + 0) =
                 5404319552844595 / 9007199254740992"
    by (simp only: binary64_examples add_0_right)
  have boosted: "round_binary64 (round_binary64 (1 / 5) + 3602879701896397 / 9007199254740992) =
                   1351079888211149 / 2251799813685248"
    by (simp only: binary64_examples)
  show "final_score ?Q {str ''hostel'', str ''room'', str ''fee''} hostel_faq =
          Inr (5404319552844595 / 9007199254740992)"
    by (simp only: final_score_def Let_def three none sum.case no_boost plain) simp
  show "final_score ?Q {str ''mess''} mess_faq = Inr (1351079888211149 / 2251799813685248)"
    by (simp only: final_score_def Let_def one four sum.case boost boosted) simp
qed

lemma example_search:
  "search_faqs ascii_unicode [hostel_faq, mess_faq] (str ''hostel room fee mess laundry'') None 5 =
     \<lparr>res_matches =
        [\<lparr>sf_question = str ''When is the mess open?'', sf_answer = str ''From 7 to 22.'',
         sf_category = str ''general'',
         sf_score = 1351079888211149 / 2251799813685248,
         sf_matched_keywords = {str ''mess''}\<rparr>,
         \<lparr>sf_question = str ''What is the hostel fee?'', sf_answer = str ''It is Rs. 5000.'',
         sf_category = str ''hostel'',
         sf_score = 5404319552844595 / 9007199254740992,
         sf_matched_keywords = {str ''hostel'', str ''room'', str ''fee''}\<rparr>],
      res_total = 2, res_error = None\<rparr>"
  by (simp add: search_faqs_def Let_def category_skips_def example_found example_final_score
      example_fields slice_to_def opt_get_def)

text \<open>
  The FAQ about the mess is second in the list and first in the result: its score is
  the greater one by the rounding of the sum. No FAQ has the keyword \<open>library\<close>.
\<close>

theorem faq_search_ranking_witness:
  "search_faqs ascii_unicode [hostel_faq, mess_faq] (str ''library'') None 5 =
     \<lparr>res_matches = [], res_total = 0, res_error = None\<rparr> \<and>
   sorted_wrt (\<lambda>a b. sf_score b \<le> sf_score a)
     (res_matches (search_faqs ascii_unicode [hostel_faq, mess_faq]
        (str ''hostel room fee mess laundry'') None 5)) \<and>
   res_matches (search_faqs ascii_unicode [hostel_faq, mess_faq]
        (str ''hostel room fee mess laundry'') None 5) =
     [\<lparr>sf_question = str ''When is the mess open?'', sf_answer = str ''From 7 to 22.'',
         sf_category = str ''general'',
         sf_score = 1351079888211149 / 2251799813685248,
         sf_matched_keywords = {str ''mess''}\<rparr>,
      \<lparr>sf_question = str ''What is the hostel fee?'', sf_answer = str ''It is Rs. 5000.'',
         sf_category = str ''hostel'',
         sf_score = 5404319552844595 / 9007199254740992,
         sf_matched_keywords = {str ''hostel'', str ''room'', str ''fee''}\<rparr>]"
proof -
  have none: "\<forall>f\<in>set [hostel_faq, mess_faq].
          query_keyword_set ascii_unicode (str ''library'') \<inter> all_faq_keywords ascii_unicode f = {}"
    by (simp add: example_keywords; simp add: str_def)
  from faq_search_ranking [of "[hostel_faq, mess_faq]" ascii_unicode None "str ''library''" 5] none
  have a: "search_faqs ascii_unicode [hostel_faq, mess_faq] (str ''library'') None 5 =
     \<lparr>res_matches = [], res_total = 0, res_error = None\<rparr>"
    by blast
  from faq_search_ranking [of "[hostel_faq, mess_faq]" ascii_unicode None
         "str ''hostel room fee mess laundry''" 5]
  have b: "sorted_wrt (\<lambda>a b. sf_score b \<le> sf_score a)
     (res_matches (search_faqs ascii_unicode [hostel_faq, mess_faq]
        (str ''hostel room fee mess laundry'') None 5))"
    by blast
  from a b example_search show ?thesis by simp
qed

section \<open>Properties of the chat pipeline\<close>

text \<open>Every member of \<open>LanguageEnum\<close> has its entry in \<open>LANGUAGES\<close>.\<close>

lemma LANGUAGES_member:
  "\<exists>info. map_of LANGUAGES (lang_value l) = Some info"
  by (cases l) (simp_all add: LANGUAGES_def str_def)

lemma LANGUAGES_english: "\<exists>english. dict_item LANGUAGES (str ''en'') = Inr english"
  by (simp add: dict_item_def LANGUAGES_def str_def)


lemma new_ChatResponse_error:
  "new_ChatResponse text lang sid 0 None None True (Some (str ''error'')) =
     Inr \<lparr>resp_response = text, resp_language = lang, resp_session_id = sid,
          resp_confidence_score = 0, resp_sources = None, resp_suggested_questions = None,
          resp_fallback_required = True, resp_intent = Some (str ''error'')\<rparr>"
  by (simp add: new_ChatResponse_def)

text \<open>The store after \<open>store_object\<close> holds the object, when it has the session at all.\<close>

lemma get_session_store_object:
  "get_session sid (store_object sid obj self) =
     (if get_session sid self = None then None else Some obj)"
  by (auto simp: get_session_def store_object_def update_conv' split: option.splits)

text \<open>
  The context that the body of the \<open>try\<close> statement leaves behind when it raises: the
  one it was given, when the exception comes before the mutations of steps 3 and 4;
  otherwise the context with the entities, the intent and the message of the user,
  and with the answer as well when the exception comes after step 12.
\<close>

lemma try_body_raises:
  assumes "try_body S T request sid conversation self_context = (Inl e, conversation')"
  shows "case read_message S request of
           Inl early \<Rightarrow> conversation' = conversation
         | Inr (detected_lang, english_message, intnt, ents) \<Rightarrow>
             (let heard = add_user_message (clk_user_stamp T) (clk_user_now T)
                            (req_message request) (Some detected_lang)
                            (add_intent intnt
                               (update_entities (clk_entities T) ents conversation))
              in conversation' = heard \<or>
                 (\<exists>response_text sources conf.
                    conversation' =
                      add_assistant_message (clk_reply_stamp T) (clk_reply_now T)
                        response_text (Some detected_lang) sources (Some conf) heard))"
  using assms unfolding try_body_def Let_def
  by (auto split: sum.splits prod.splits)

lemma example_scores:
  "score_intents ascii_lower (ascii_lower (str ''What is the hostel fee?'')) INTENT_KEYWORDS =
     [(str ''fee_query'', 1 / 2, [str ''fee'']), (str ''hostel'', 1 / 2, [str ''hostel''])]"
  by (simp add: run_intent)


lemma example_intent:
  "intent (detect_intent ascii_lower (str ''What is the hostel fee?'')) = str ''fee_query''"
proof -
  have n: "str ''What is the hostel fee?'' \<noteq> []" by (simp add: str_def)
  show ?thesis using n by (simp add: detect_intent_def example_scores Let_def)
qed

lemma example_read:
  "read_message failing_search example_request =
     Inr (str ''en'', str ''What is the hostel fee?'', str ''fee_query'', [])"
proof -
  have l: "lower_of (unicode_tables failing_search) = ascii_lower"
    by (simp add: failing_search_def ascii_unicode_def)
  show ?thesis
    unfolding read_message_def l
    by (simp add: failing_search_def example_request_def example_intent)
qed

lemma example_session:
  "get_or_create_session 0 0 0 (str ''s1'') HINDI (new_manager 1000 30) =
     (Inr (new_context 0 0 (str ''s1'') HINDI 10),
      (new_manager 1000 30)\<lparr>sessions := [(str ''s1'', new_context 0 0 (str ''s1'') HINDI 10)]\<rparr>)"
proof -
  have "evict_excess 1000 [(str ''s1'', new_context 0 0 (str ''s1'') HINDI 10)] =
          (Inr (), [(str ''s1'', new_context 0 0 (str ''s1'') HINDI 10)])"
    by (rule evict_excess_within) simp
  then show ?thesis
    by (simp add: get_or_create_session_def cleanup_old_sessions_def new_manager_def
        new_context_def Let_def)
qed

text \<open>
  The main step of the claim C3: when the body of the \<open>try\<close> statement raises,
  \<open>process_message\<close> returns the error response and the store with the context as
  the body left it.
\<close>

lemma process_message_raises:
  assumes sid: "str_or (req_session_id request) (generate_session_id S) = sid"
    and resolved: "get_or_create_session (clk_created T) (clk_updated T) (clk_cleanup T) sid
                     (req_language request) self_context = (Inr conversation, cm)"
    and raised: "try_body S T request sid conversation cm = (Inl e, conversation')"
  shows "\<exists>info. map_of LANGUAGES (lang_value (req_language request)) = Some info \<and>
           process_message S T request self_context =
             (Inr \<lparr>resp_response = lang_error info, resp_language = req_language request,
                   resp_session_id = sid, resp_confidence_score = 0, resp_sources = None,
                   resp_suggested_questions = None, resp_fallback_required = True,
                   resp_intent = Some (str ''error'')\<rparr>,
              store_object sid conversation' cm)"
proof -
  obtain info where info: "map_of LANGUAGES (lang_value (req_language request)) = Some info"
    using LANGUAGES_member by blast
  obtain english where english: "dict_item LANGUAGES (str ''en'') = Inr english"
    using LANGUAGES_english by blast
  have "process_message S T request self_context =
          (new_ChatResponse (lang_error info) (req_language request) sid 0 None None True
             (Some (str ''error'')),
           store_object sid conversation' cm)"
    by (simp add: process_message_def sid resolved raised english dict_get_def info)
  then show ?thesis using info by (simp add: new_ChatResponse_error)
qed


text \<open>
  Claim C3: when \<open>get_or_create_session\<close> has returned the context of the session and
  the body of the \<open>try\<close> statement raises an exception, \<open>process_message\<close> returns a
  response: its text is the error message that \<open>LANGUAGES\<close> has for the language of
  the request, its confidence is 0, it asks for a human, and its session id is the one
  resolved at the start. The context of the session in the store is the context as
  the body left it: the context as it was before the call when the exception came
  before the message of the user was added, and otherwise the context with the
  entities, the intent and the message of the user, and with the answer too when it
  had been added already.
\<close>

theorem pipeline_exception_response:
  assumes sid: "str_or (req_session_id request) (generate_session_id S) = sid"
    and resolved: "get_or_create_session (clk_created T) (clk_updated T) (clk_cleanup T) sid
                     (req_language request) self_context = (Inr conversation, cm)"
    and raised: "try_body S T request sid conversation cm = (Inl e, conversation')"
  shows "(\<exists>info. map_of LANGUAGES (lang_value (req_language request)) = Some info \<and>
            fst (process_message S T request self_context) =
              Inr \<lparr>resp_response = lang_error info, resp_language = req_language request,
                   resp_session_id = sid, resp_confidence_score = 0, resp_sources = None,
                   resp_suggested_questions = None, resp_fallback_required = True,
                   resp_intent = Some (str ''error'')\<rparr>) \<and>
         get_session sid (snd (process_message S T request self_context)) =
           (if get_session sid cm = None then None else Some conversation') \<and>
         (case read_message S request of
            Inl early \<Rightarrow> conversation' = conversation
          | Inr (detected_lang, english_message, intnt, ents) \<Rightarrow>
              (let heard = add_user_message (clk_user_stamp T) (clk_user_now T)
                             (req_message request) (Some detected_lang)
                             (add_intent intnt
                                (update_entities (clk_entities T) ents conversation))
               in conversation' = heard \<or>
                  (\<exists>response_text sources conf.
                     conversation' =
                       add_assistant_message (clk_reply_stamp T) (clk_reply_now T)
                         response_text (Some detected_lang) sources (Some conf) heard)))"
proof -
  from process_message_raises [OF sid resolved raised]
  obtain info where info: "map_of LANGUAGES (lang_value (req_language request)) = Some info"
    and run: "process_message S T request self_context =
             (Inr \<lparr>resp_response = lang_error info, resp_language = req_language request,
                   resp_session_id = sid, resp_confidence_score = 0, resp_sources = None,
                   resp_suggested_questions = None, resp_fallback_required = True,
                   resp_intent = Some (str ''error'')\<rparr>,
              store_object sid conversation' cm)"
    by blast
  have first: "\<exists>info. map_of LANGUAGES (lang_value (req_language request)) = Some info \<and>
            fst (process_message S T request self_context) =
              Inr \<lparr>resp_response = lang_error info, resp_language = req_language request,
                   resp_session_id = sid, resp_confidence_score = 0, resp_sources = None,
                   resp_suggested_questions = None, resp_fallback_required = True,
                   resp_intent = Some (str ''error'')\<rparr>"
    using info run by simp
  have second: "get_session sid (snd (process_message S T request self_context)) =
           (if get_session sid cm = None then None else Some conversation')"
    unfolding run by (simp only: snd_conv get_session_store_object)
  from first second try_body_raises [OF raised] show ?thesis by blast
qed

text \<open>
  The pipeline on a request in Hindi whose message the detector finds to be English,
  with a document search that raises: the caller gets the Hindi error message, and the
  context in the store has the message of the user.
\<close>

lemma example_resolved:
  "get_or_create_session (clk_created example_clock) (clk_updated example_clock)
     (clk_cleanup example_clock) (str ''s1'') (req_language example_request)
     (new_manager 1000 30) =
     (Inr (new_context 0 0 (str ''s1'') HINDI 10),
      (new_manager 1000 30)\<lparr>sessions := [(str ''s1'', new_context 0 0 (str ''s1'') HINDI 10)]\<rparr>)"
  by (simp add: example_clock_def example_request_def example_session)

lemma example_body:
  "try_body failing_search example_clock example_request (str ''s1'')
     (new_context 0 0 (str ''s1'') HINDI 10)
     ((new_manager 1000 30)\<lparr>sessions := [(str ''s1'', new_context 0 0 (str ''s1'') HINDI 10)]\<rparr>) =
     (Inl (RuntimeError (str ''no vector store'')),
      \<lparr>session_id = str ''s1'', language = HINDI,
           messages = [\<lparr>msg_role = str ''user'', msg_content = str ''What is the hostel fee?'',
                        msg_language = str ''en'', msg_timestamp = 2,
                        msg_metadata = empty_metadata\<rparr>],
           max_messages = 10, metadata = [], created_at = 0, updated_at = 2, entities = [],
           intent_history = [str ''fee_query'']\<rparr>)"
proof -
  have no_faq: "chatbot_search_faqs failing_search q i = None" for q i
    by (simp add: chatbot_search_faqs_def search_faqs_def failing_search_def)
  have search: "rag_generate_answer failing_search q = Inl (RuntimeError (str ''no vector store''))"
    for q
    by (simp add: failing_search_def)
  have chosen: "choose_response failing_search d q (str ''fee_query'') sid cm =
                  Inl (RuntimeError (str ''no vector store''))" for d q sid cm
    by (simp add: choose_response_def no_faq document_answer_def search) (simp add: str_def)
  show ?thesis
    unfolding try_body_def example_read
    by (simp add: chosen Let_def)
       (simp add: update_entities_def add_intent_def add_user_message_def add_message_def
          new_context_def example_clock_def example_request_def dict_update_def str_or_def
          Let_def str_def)
qed

theorem pipeline_exception_response_witness:
  "fst (process_message failing_search example_clock example_request (new_manager 1000 30)) =
     Inr \<lparr>resp_response =
           [2325, 2369, 2331, 32, 2327, 2354, 2340, 32, 2361, 2379, 32, 2327,
             2351, 2366, 2404, 32, 2325, 2371, 2346, 2351, 2366, 32, 2346, 2369,
             2344, 2307, 32, 2346, 2381, 2352, 2351, 2366, 2360, 32, 2325, 2352,
             2375, 2306, 2404],
          resp_language = HINDI, resp_session_id = str ''s1'', resp_confidence_score = 0,
          resp_sources = None, resp_suggested_questions = None,
          resp_fallback_required = True, resp_intent = Some (str ''error'')\<rparr> \<and>
   get_session (str ''s1'')
     (snd (process_message failing_search example_clock example_request (new_manager 1000 30))) =
     Some \<lparr>session_id = str ''s1'', language = HINDI,
           messages = [\<lparr>msg_role = str ''user'', msg_content = str ''What is the hostel fee?'',
                        msg_language = str ''en'', msg_timestamp = 2,
                        msg_metadata = empty_metadata\<rparr>],
           max_messages = 10, metadata = [], created_at = 0, updated_at = 2, entities = [],
           intent_history = [str ''fee_query'']\<rparr>"
proof -
  have sid: "str_or (req_session_id example_request) (generate_session_id failing_search) =
               str ''s1''"
    by (simp add: str_or_def example_request_def failing_search_def)
  have lang: "req_language example_request = HINDI" by (simp add: example_request_def)
  have hi: "map_of LANGUAGES (lang_value HINDI) = Some info \<Longrightarrow>
            lang_error info =
           [2325, 2369, 2331, 32, 2327, 2354, 2340, 32, 2361, 2379, 32, 2327,
             2351, 2366, 2404, 32, 2325, 2371, 2346, 2351, 2366, 32, 2346, 2369,
             2344, 2307, 32, 2346, 2381, 2352, 2351, 2366, 2360, 32, 2325, 2352,
             2375, 2306, 2404]" for info
    by (simp add: LANGUAGES_def str_def) auto
  from pipeline_exception_response [OF sid example_resolved example_body] hi
  show ?thesis
    by (auto simp: get_session_def lang)
qed

end
